theory Spec2Isabelle
  imports
    Complex_Main
    "HOL-Library.Multiset"
    "HOL-Library.AList"
    "HOL-Library.Product_Lexorder"
    "HOL-Library.List_Lexorder"
    "HOL-Library.Char_ord"
begin

section \<open>Numeric values and data frames\<close>

text \<open>
  The columns of the data frames are numpy \<open>float64\<close> arrays.  A value is either a
  number or the missing value \<open>nan\<close>; finite numbers are idealised as exact reals.
  Comparisons with \<open>nan\<close> are false, arithmetic with \<open>nan\<close> yields \<open>nan\<close>.
  Infinities and rounding are not part of the model: an operation whose \<open>float64\<close>
  result would be infinite (a division by zero, the logarithm of zero) yields \<open>NaN\<close>
  here.
\<close>

datatype flt = NaN | Fin real


fun cmp :: "(real \<Rightarrow> bool) \<Rightarrow> flt \<Rightarrow> bool" where
  "cmp P NaN = False"
| "cmp P (Fin x) = P x"

fun lift2 :: "(real \<Rightarrow> real \<Rightarrow> real) \<Rightarrow> flt \<Rightarrow> flt \<Rightarrow> flt" where
  "lift2 f (Fin x) (Fin y) = Fin (f x y)"
| "lift2 f _ _ = NaN"

fun lift1 :: "(real \<Rightarrow> real) \<Rightarrow> flt \<Rightarrow> flt" where
  "lift1 f (Fin x) = Fin (f x)"
| "lift1 f NaN = NaN"

definition flt_sub :: "flt \<Rightarrow> flt \<Rightarrow> flt" where
  "flt_sub = lift2 (\<lambda>x y. x - y)"



fun flt_div :: "flt \<Rightarrow> flt \<Rightarrow> flt" where
  "flt_div (Fin x) (Fin y) = (if y = 0 then NaN else Fin (x / y))"
| "flt_div _ _ = NaN"


text \<open>The finite values of an array, or \<open>None\<close> when one of them is \<open>nan\<close>.\<close>

fun finite_vals :: "flt list \<Rightarrow> real list option" where
  "finite_vals [] = Some []"
| "finite_vals (NaN # xs) = None"
| "finite_vals (Fin x # xs) = map_option (\<lambda>ys. x # ys) (finite_vals xs)"

text \<open>The values that are not \<open>nan\<close> (what pandas keeps with \<open>skipna\<close>).\<close>

fun dropna :: "flt list \<Rightarrow> real list" where
  "dropna [] = []"
| "dropna (NaN # xs) = dropna xs"
| "dropna (Fin x # xs) = x # dropna xs"

definition mean_real :: "real list \<Rightarrow> real" where
  "mean_real xs = sum_list xs / real (length xs)"


text \<open>
  \<open>ndarray.mean()\<close> and \<open>ndarray.std()\<close> (population standard deviation): \<open>nan\<close>
  for an empty array and for an array holding a \<open>nan\<close>.
\<close>

definition np_mean :: "flt list \<Rightarrow> flt" where
  "np_mean xs =
     (case finite_vals xs of
        None \<Rightarrow> NaN
      | Some ys \<Rightarrow> if ys = [] then NaN else Fin (mean_real ys))"


text \<open>
  \<open>Series.mean()\<close>, \<open>Series.min()\<close> and \<open>Series.max()\<close> of pandas skip missing
  values and are \<open>nan\<close> when nothing is left.
\<close>

definition pd_mean :: "flt list \<Rightarrow> flt" where
  "pd_mean xs = (let ys = dropna xs in if ys = [] then NaN else Fin (mean_real ys))"

definition pd_min :: "flt list \<Rightarrow> flt" where
  "pd_min xs = (let ys = dropna xs in if ys = [] then NaN else Fin (Min (set ys)))"

definition pd_max :: "flt list \<Rightarrow> flt" where
  "pd_max xs = (let ys = dropna xs in if ys = [] then NaN else Fin (Max (set ys)))"

text \<open>
  \<open>df.groupby(level=...)\<close>: the rows of each key, the keys in sorted order, the rows
  of a group in their order in the frame.
\<close>

definition groupby :: "('r \<Rightarrow> 'k::linorder) \<Rightarrow> 'r list \<Rightarrow> ('k \<times> 'r list) list" where
  "groupby key rows =
     map (\<lambda>k. (k, filter (\<lambda>r. key r = k) rows)) (sort (remdups (map key rows)))"

text \<open>
  \<open>groupby(...).apply(f)\<close> where \<open>f\<close> returns a frame: the frames of the groups are
  concatenated, each row under the key of its group.
\<close>

definition groupby_apply ::
  "('r \<Rightarrow> 'k::linorder) \<Rightarrow> ('r list \<Rightarrow> 'a list) \<Rightarrow> 'r list \<Rightarrow> ('k \<times> 'a) list" where
  "groupby_apply key f rows =
     concat (map (\<lambda>(k, g). map (\<lambda>a. (k, a)) (f g)) (groupby key rows))"

type_synonym station = string

section \<open>Daily cloud data from hourly cloud data (\<open>DailyCloud\<close>)\<close>

text \<open>
  A row of the hourly EECRA frame: the index (\<open>id\<close>, \<open>year\<close>, \<open>month\<close>, \<open>day\<close>,
  \<open>hour\<close>) and the columns \<open>calculate_daily\<close> reads: the present-weather code
  \<open>ww\<close>, the air temperature \<open>AT\<close>, the total cloud cover \<open>N\<close> in okta and the
  wind speed \<open>WS\<close>.  The fields carry the prefix \<open>h_\<close>.
\<close>

record hourly_row =
  h_id :: station
  h_year :: int
  h_month :: int
  h_day :: int
  h_hour :: int
  h_ww :: flt
  h_AT :: flt
  h_N :: flt
  h_WS :: flt

record daily_cloud_row =
  wet_day :: int
  dc_tmin :: flt
  dc_tmax :: flt
  mean_cloud :: flt
  wind :: flt

text \<open>The mask of \<open>calculate_daily\<close> on one present-weather code, as it is written.\<close>

definition wet_code :: "flt \<Rightarrow> bool" where
  "wet_code w \<longleftrightarrow>
     (cmp (\<lambda>x. x \<ge> 50) w \<and> cmp (\<lambda>x. x \<le> 75) w) \<or>
     cmp (\<lambda>x. x = 75) w \<or>
     cmp (\<lambda>x. x = 77) w \<or>
     cmp (\<lambda>x. x = 79) w \<or>
     (cmp (\<lambda>x. x \<ge> 80) w \<and> cmp (\<lambda>x. x \<le> 99) w)"

definition calculate_daily :: "hourly_row list \<Rightarrow> daily_cloud_row list" where
  "calculate_daily df =
     [\<lparr> wet_day = (if list_ex wet_code (map h_ww df) then 1 else 0),
        dc_tmin = pd_min (map h_AT df),
        dc_tmax = pd_max (map h_AT df),
        mean_cloud = flt_div (pd_mean (map h_N df)) (Fin 8),
        wind = pd_mean (map h_WS df) \<rparr>]"

definition day_key :: "hourly_row \<Rightarrow> station \<times> int \<times> int \<times> int" where
  "day_key r = (h_id r, h_year r, h_month r, h_day r)"

definition daily_cloud_setup_from_scratch ::
  "hourly_row list \<Rightarrow> ((station \<times> int \<times> int \<times> int) \<times> daily_cloud_row) list" where
  "daily_cloud_setup_from_scratch df = groupby_apply day_key calculate_daily df"

text \<open>The codes the specification lists as precipitation codes.\<close>

definition spec_wet_code :: "flt \<Rightarrow> bool" where
  "spec_wet_code w \<longleftrightarrow>
     (case w of
        NaN \<Rightarrow> False
      | Fin x \<Rightarrow> (50 \<le> x \<and> x \<le> 75) \<or> x = 77 \<or> x = 79 \<or> (80 \<le> x \<and> x \<le> 99))"

text \<open>An hourly frame of one station: a day with a rain code and a day with codes 76 and 78.\<close>

definition example_hourly :: "hourly_row list" where
  "example_hourly =
    [\<lparr>h_id = ''ST1'', h_year = 1990, h_month = 1, h_day = 1, h_hour = 0,
       h_ww = Fin 76, h_AT = Fin 1, h_N = Fin 4, h_WS = NaN\<rparr>,
     \<lparr>h_id = ''ST1'', h_year = 1990, h_month = 1, h_day = 1, h_hour = 6,
       h_ww = Fin 61, h_AT = Fin 3, h_N = Fin 8, h_WS = NaN\<rparr>,
     \<lparr>h_id = ''ST1'', h_year = 1990, h_month = 1, h_day = 2, h_hour = 0,
       h_ww = Fin 76, h_AT = NaN, h_N = NaN, h_WS = NaN\<rparr>,
     \<lparr>h_id = ''ST1'', h_year = 1990, h_month = 1, h_day = 2, h_hour = 6,
       h_ww = Fin 78, h_AT = NaN, h_N = NaN, h_WS = NaN\<rparr>]"

section \<open>Markov chain parameters of the precipitation occurrence (\<open>MarkovChain\<close>)\<close>

text \<open>
  A row of the daily frame \<open>cday\<close> (the days of the complete months): the index
  (\<open>id\<close>, \<open>year\<close>, \<open>month\<close>, \<open>day\<close>) and the columns \<open>prcp\<close>, \<open>tmin\<close>
  and \<open>tmax\<close>.
\<close>

record day_row =
  d_id :: station
  d_year :: int
  d_month :: int
  d_day :: int
  prcp :: flt
  tmin :: flt
  tmax :: flt

text \<open>The nine counts of \<open>calc_ndays\<close>; \<open>n_len\<close> is the column \<open>n\<close>.\<close>

record ndays =
  n_len :: nat
  nwet :: nat
  ndry :: nat
  np11 :: nat
  np01 :: nat
  np001 :: nat
  np001_denom :: nat
  np101 :: nat
  np101_denom :: nat

text \<open>Boolean masks: \<open>vals > 0.0\<close>, \<open>vals == 0.0\<close>, \<open>a & b\<close> and \<open>mask.sum()\<close>.\<close>

definition gt0 :: "flt list \<Rightarrow> bool list" where
  "gt0 vals = map (cmp (\<lambda>x. x > 0)) vals"

definition eq0 :: "flt list \<Rightarrow> bool list" where
  "eq0 vals = map (cmp (\<lambda>x. x = 0)) vals"

definition mask_and :: "bool list \<Rightarrow> bool list \<Rightarrow> bool list" where
  "mask_and a b = map2 (\<and>) a b"

definition mask_sum :: "bool list \<Rightarrow> nat" where
  "mask_sum m = length (filter id m)"

text \<open>
  The slices \<open>vals[:-1]\<close>, \<open>vals[1:]\<close>, \<open>vals[:-2]\<close>, \<open>vals[1:-1]\<close> and
  \<open>vals[2:]\<close>.  For an empty frame \<open>calc_ndays\<close> returns one row of \<open>nan\<close>, which
  the sum over the groups skips: it is \<open>None\<close> here.
\<close>

definition calc_ndays :: "day_row list \<Rightarrow> ndays option" where
  "calc_ndays df =
     (if length df = 0 then None
      else
        let vals = map prcp df;
            v_m1 = take (length vals - 1) vals;
            v_1 = drop 1 vals;
            v_m2 = take (length vals - 2) vals;
            v_1m1 = drop 1 (take (length vals - 1) vals);
            v_2 = drop 2 vals;
            c_np001 = mask_sum (mask_and (mask_and (eq0 v_m2) (eq0 v_1m1)) (gt0 v_2));
            c_np101 = mask_sum (mask_and (mask_and (gt0 v_m2) (eq0 v_1m1)) (gt0 v_2))
        in Some \<lparr> n_len = length vals,
                   nwet = mask_sum (gt0 v_m1),
                   ndry = mask_sum (eq0 v_m1),
                   np11 = mask_sum (mask_and (gt0 v_m1) (gt0 v_1)),
                   np01 = mask_sum (mask_and (eq0 v_m1) (gt0 v_1)),
                   np001 = c_np001,
                   np001_denom =
                     c_np001 + mask_sum (mask_and (mask_and (eq0 v_m2) (eq0 v_1m1)) (eq0 v_2)),
                   np101 = c_np101,
                   np101_denom =
                     c_np101 + mask_sum (mask_and (mask_and (gt0 v_m2) (eq0 v_1m1)) (eq0 v_2)) \<rparr>)"

definition ndays_zero :: ndays where
  "ndays_zero = \<lparr> n_len = 0, nwet = 0, ndry = 0, np11 = 0, np01 = 0, np001 = 0,
                   np001_denom = 0, np101 = 0, np101_denom = 0 \<rparr>"

definition ndays_add :: "ndays \<Rightarrow> ndays \<Rightarrow> ndays" where
  "ndays_add a b =
     \<lparr> n_len = n_len a + n_len b, nwet = nwet a + nwet b, ndry = ndry a + ndry b,
       np11 = np11 a + np11 b, np01 = np01 a + np01 b, np001 = np001 a + np001 b,
       np001_denom = np001_denom a + np001_denom b, np101 = np101 a + np101 b,
       np101_denom = np101_denom a + np101_denom b \<rparr>"

text \<open>\<open>g.apply(cls.calc_ndays).sum()\<close>: the column sums over the groups.\<close>

fun ndays_sum :: "ndays option list \<Rightarrow> ndays" where
  "ndays_sum [] = ndays_zero"
| "ndays_sum (None # rs) = ndays_sum rs"
| "ndays_sum (Some r # rs) = ndays_add r (ndays_sum rs)"

text \<open>\<open>a / b if b > 0 else 0\<close>, with the true division of Python 3.\<close>

definition ratio :: "nat \<Rightarrow> nat \<Rightarrow> flt" where
  "ratio a b = (if b > 0 then Fin (real a / real b) else Fin 0)"

record markov_row =
  p11 :: flt
  p01 :: flt
  p001 :: flt
  p101 :: flt
  wetf :: flt

definition year_month_key :: "day_row \<Rightarrow> int \<times> int" where
  "year_month_key r = (d_year r, d_month r)"

definition station_month_key :: "day_row \<Rightarrow> station \<times> int" where
  "station_month_key r = (d_id r, d_month r)"

text \<open>The number of groups \<open>g.ngroups\<close> and the pooled counts \<open>dfs\<close> of a frame.\<close>

definition ngroups :: "day_row list \<Rightarrow> nat" where
  "ngroups df = length (groupby year_month_key df)"

definition pooled_ndays :: "day_row list \<Rightarrow> ndays" where
  "pooled_ndays df = ndays_sum (map (\<lambda>(k, g). calc_ndays g) (groupby year_month_key df))"

text \<open>
  \<open>MarkovChain.calculate_probabilities\<close>: a frame of one row, or the empty frame with
  the five columns.
\<close>

definition markov_calculate_probabilities :: "day_row list \<Rightarrow> markov_row list" where
  "markov_calculate_probabilities df =
     (if ngroups df > 10 then
        let dfs = pooled_ndays df
        in [\<lparr> p11 = ratio (np11 dfs) (nwet dfs),
               p01 = ratio (np01 dfs) (ndry dfs),
               p001 = ratio (np001 dfs) (np001_denom dfs),
               p101 = ratio (np101 dfs) (np101_denom dfs),
               wetf = ratio (nwet dfs) (n_len dfs) \<rparr>]
      else [])"

definition markov_setup_from_scratch :: "day_row list \<Rightarrow> ((station \<times> int) \<times> markov_row) list" where
  "markov_setup_from_scratch df =
     groupby_apply station_month_key markov_calculate_probabilities df"

text \<open>The rows of one station and month in the daily frame.\<close>

definition station_month :: "station \<times> int \<Rightarrow> day_row list \<Rightarrow> day_row list" where
  "station_month k df = filter (\<lambda>r. station_month_key r = k) df"

text \<open>A value in the unit interval.\<close>

definition unit_interval :: "flt \<Rightarrow> bool" where
  "unit_interval v = cmp (\<lambda>x. 0 \<le> x \<and> x \<le> 1) v"

text \<open>The inequalities between the counts that bound the ratios.\<close>

definition ndays_ok :: "ndays \<Rightarrow> bool" where
  "ndays_ok r \<longleftrightarrow> np11 r \<le> nwet r \<and> np01 r \<le> ndry r \<and> np001 r \<le> np001_denom r \<and>
     np101 r \<le> np101_denom r \<and> nwet r \<le> n_len r"

text \<open>
  A daily frame: eleven Januaries of station \<open>ST1\<close> (wet, dry, wet) and one day of
  station \<open>ST2\<close>.
\<close>

definition example_days :: "day_row list" where
  "example_days =
     concat (map (\<lambda>y.
       [\<lparr>d_id = ''ST1'', d_year = y, d_month = 1, d_day = 1, prcp = Fin 1, tmin = Fin 0, tmax = Fin 5\<rparr>,
        \<lparr>d_id = ''ST1'', d_year = y, d_month = 1, d_day = 2, prcp = Fin 0, tmin = Fin 1, tmax = Fin 7\<rparr>,
        \<lparr>d_id = ''ST1'', d_year = y, d_month = 1, d_day = 3, prcp = Fin 2, tmin = Fin 2, tmax = Fin 6\<rparr>])
       [1990 ..< 2001])
     @ [\<lparr>d_id = ''ST2'', d_year = 1990, d_month = 1, d_day = 1, prcp = Fin 1, tmin = Fin 0, tmax = Fin 5\<rparr>]"

section \<open>Temperature statistics of one month (\<open>TemperatureParameterizer\<close>)\<close>


















section \<open>Precipitation distribution parameters (\<open>PrcpDistParams\<close>)\<close>

text \<open>
  The fits and the Gamma distribution functions come from \<open>scipy.stats\<close>; they are
  parameters of the model.  A fit returns its estimates or raises an exception:
  \<open>gamma_fit vals\<close> is \<open>stats.gamma.fit(vals, floc=0)\<close> with its shape and scale,
  \<open>genpareto_fit arr thresh\<close> is \<open>stats.genpareto.fit(arr, floc=thresh)\<close> with its
  shape and scale, \<open>gamma_cdf x shape scale\<close> and \<open>gamma_pdf x shape scale\<close> are
  \<open>stats.gamma.cdf\<close> and \<open>stats.gamma.pdf\<close>.
\<close>

type_synonym exn = string

record scipy_stats =
  gamma_fit :: "real list \<Rightarrow> exn + (flt \<times> flt)"
  genpareto_fit :: "real list \<Rightarrow> real \<Rightarrow> exn + (flt \<times> flt)"
  gamma_cdf :: "real \<Rightarrow> flt \<Rightarrow> flt \<Rightarrow> flt"
  gamma_pdf :: "real \<Rightarrow> flt \<Rightarrow> flt \<Rightarrow> flt"

text \<open>
  The unique values of the index levels of a frame, which the error message joins:
  \<open>df.index.get_level_values(n).unique()\<close> for each level \<open>n\<close>.
\<close>

definition unique :: "'a list \<Rightarrow> 'a list" where
  "unique xs = rev (remdups (rev xs))"

record ident =
  ids :: "station list"
  years :: "int list"
  months :: "int list"
  days :: "int list"

definition index_levels :: "day_row list \<Rightarrow> ident" where
  "index_levels df =
     \<lparr> ids = unique (map d_id df), years = unique (map d_year df),
       months = unique (map d_month df), days = unique (map d_day df) \<rparr>"

text \<open>
  What the task leaves outside its data: the records of the logger, the files written
  with \<open>to_csv\<close>, and the number of the next temporary file name.
\<close>

datatype log_record = FitError ident | DataStored nat

record world =
  logged :: "log_record list"
  csv_files :: "(nat \<times> day_row list) list"
  tmp_next :: nat

text \<open>
  The body of both \<open>except\<close> clauses: the critical message with the identification of
  the frame, the frame written to a new temporary file, the message with the file name.
\<close>

definition report_fit_error :: "day_row list \<Rightarrow> world \<Rightarrow> world" where
  "report_fit_error df w =
     (let w1 = w\<lparr>logged := logged w @ [FitError (index_levels df)]\<rparr>;
          tmp = tmp_next w1;
          w2 = w1\<lparr>tmp_next := tmp + 1, csv_files := csv_files w1 @ [(tmp, df)]\<rparr>
      in w2\<lparr>logged := logged w2 @ [DataStored tmp]\<rparr>)"

text \<open>The lists \<open>ngp\<close>, \<open>pshape\<close>, \<open>pscale\<close> and \<open>pscale_orig\<close> of the function.\<close>

record gp_arrays =
  a_ngp :: "flt list"
  a_pshape :: "flt list"
  a_pscale :: "flt list"
  a_pscale_orig :: "flt list"

text \<open>
  The body of the loop over \<open>enumerate(threshs)\<close>.  The \<open>try\<close> statement holds the
  fit alone; the tuple assignment to \<open>pshape[i]\<close> and \<open>pscale_orig[i]\<close> happens when the
  fit has returned.
\<close>

definition gp_step ::
  "scipy_stats \<Rightarrow> day_row list \<Rightarrow> real list \<Rightarrow> flt \<Rightarrow> flt \<Rightarrow> nat \<times> real \<Rightarrow>
     gp_arrays \<times> world \<Rightarrow> gp_arrays \<times> world" where
  "gp_step sc df vals gshape gscale it st =
     (case it of (i, thresh) \<Rightarrow>
      case st of (a, w) \<Rightarrow>
        let arr = filter (\<lambda>x. x \<ge> thresh) vals;
            a1 = a\<lparr>a_ngp := (a_ngp a)[i := Fin (real (length arr))]\<rparr>
        in if length arr > 10 then
             (case genpareto_fit sc arr thresh of
                Inl e \<Rightarrow> (a1, report_fit_error df w)
              | Inr (sh, so) \<Rightarrow>
                  (a1\<lparr>a_pshape := (a_pshape a1)[i := sh],
                      a_pscale_orig := (a_pscale_orig a1)[i := so],
                      a_pscale := (a_pscale a1)[i :=
                        flt_div (flt_sub (Fin 1) (gamma_cdf sc thresh gshape gscale))
                          (gamma_pdf sc thresh gshape gscale)]\<rparr>, w))
           else (a1, w))"

fun gp_loop ::
  "scipy_stats \<Rightarrow> day_row list \<Rightarrow> real list \<Rightarrow> flt \<Rightarrow> flt \<Rightarrow> (nat \<times> real) list \<Rightarrow>
     gp_arrays \<times> world \<Rightarrow> gp_arrays \<times> world" where
  "gp_loop sc df vals gshape gscale [] st = st"
| "gp_loop sc df vals gshape gscale (it # its) st =
     gp_loop sc df vals gshape gscale its (gp_step sc df vals gshape gscale it st)"

record prcp_row =
  pr_n :: nat
  ngamma :: nat
  mean_wet :: flt
  ngp :: flt
  thresh :: real
  gshape :: flt
  gscale :: flt
  pshape :: flt
  pscale :: flt
  pscale_orig :: flt

text \<open>The frame that the function returns: one row for each threshold.\<close>

definition prcp_frame ::
  "nat \<Rightarrow> nat \<Rightarrow> flt \<Rightarrow> real list \<Rightarrow> flt \<Rightarrow> flt \<Rightarrow> gp_arrays \<Rightarrow> prcp_row list" where
  "prcp_frame n ng mw threshs gsh gsc a =
     map (\<lambda>i. \<lparr> pr_n = n, ngamma = ng, mean_wet = mw, ngp = a_ngp a ! i,
                thresh = threshs ! i, gshape = gsh, gscale = gsc, pshape = a_pshape a ! i,
                pscale = a_pscale a ! i, pscale_orig = a_pscale_orig a ! i \<rparr>)
       [0 ..< length threshs]"

text \<open>The positive precipitation amounts of a frame: \<open>vals\<close> after the two selections.\<close>

definition wet_vals :: "day_row list \<Rightarrow> real list" where
  "wet_vals df = filter (\<lambda>x. x > 0) (dropna (map prcp df))"

text \<open>
  \<open>prcp_dist_params\<close>.  The result is the returned frame and the world after the call,
  or the exception that leaves the function.
\<close>

definition prcp_dist_params ::
  "scipy_stats \<Rightarrow> day_row list \<Rightarrow> real list \<Rightarrow> world \<Rightarrow> exn + (prcp_row list \<times> world)" where
  "prcp_dist_params sc df threshs w =
     (let vals0 = dropna (map prcp df);
          N = length threshs;
          n = length vals0 * N;
          vals = filter (\<lambda>x. x > 0) vals0;
          ng = length vals;
          a0 = \<lparr> a_ngp = replicate N NaN, a_pshape = replicate N NaN,
                 a_pscale = replicate N NaN, a_pscale_orig = replicate N NaN \<rparr>;
          mw = np_mean (map Fin vals)
      in if ng > 10 then
           (case gamma_fit sc vals of
              Inl e \<Rightarrow> Inr (prcp_frame n ng mw threshs NaN NaN a0, report_fit_error df w)
            | Inr (gsh, gsc) \<Rightarrow>
                (case gp_loop sc df vals gsh gsc (enumerate 0 threshs) (a0, w) of
                   (a, w') \<Rightarrow> Inr (prcp_frame n ng mw threshs gsh gsc a, w')))
         else Inr (prcp_frame n ng mw threshs NaN NaN a0, w))"

record prcp_config =
  cfg_thresh :: real
  cfg_threshs2compute :: "real list"

text \<open>
  \<open>groupby(...).apply(func)\<close> for a function with effects: the groups are processed in
  order, and an exception that leaves \<open>func\<close> ends the run.
\<close>

fun apply_groups ::
  "('r list \<Rightarrow> world \<Rightarrow> exn + ('a list \<times> world)) \<Rightarrow> ('k \<times> 'r list) list \<Rightarrow> world \<Rightarrow>
     exn + (('k \<times> 'a) list \<times> world)" where
  "apply_groups f [] w = Inr ([], w)"
| "apply_groups f ((k, g) # gs) w =
     (case f g w of
        Inl e \<Rightarrow> Inl e
      | Inr (rows, w1) \<Rightarrow>
          (case apply_groups f gs w1 of
             Inl e \<Rightarrow> Inl e
           | Inr (rest, w2) \<Rightarrow> Inr (map (Pair k) rows @ rest, w2)))"

definition prcp_threshs :: "prcp_config \<Rightarrow> real list" where
  "prcp_threshs cfg =
     (if cfg_thresh cfg \<notin> set (cfg_threshs2compute cfg)
      then cfg_threshs2compute cfg @ [cfg_thresh cfg] else cfg_threshs2compute cfg)"

definition prcp_setup_from_scratch ::
  "scipy_stats \<Rightarrow> prcp_config \<Rightarrow> day_row list \<Rightarrow> world \<Rightarrow>
     exn + (((station \<times> int) \<times> prcp_row) list \<times> world)" where
  "prcp_setup_from_scratch sc cfg df w =
     apply_groups (\<lambda>g. prcp_dist_params sc g (prcp_threshs cfg))
       (groupby station_month_key df) w"

text \<open>The exceedances of a threshold, and whether the Pareto fit to them raises.\<close>

definition exceedances :: "real list \<Rightarrow> real \<Rightarrow> real list" where
  "exceedances vals t = filter (\<lambda>x. x \<ge> t) vals"

definition gp_fit_fails :: "scipy_stats \<Rightarrow> real list \<Rightarrow> real \<Rightarrow> bool" where
  "gp_fit_fails sc vals t \<longleftrightarrow>
     10 < length (exceedances vals t) \<and> isl (genpareto_fit sc (exceedances vals t) t)"

definition all_nan :: "prcp_row \<Rightarrow> bool" where
  "all_nan r \<longleftrightarrow> gshape r = NaN \<and> gscale r = NaN \<and> pshape r = NaN \<and> pscale r = NaN \<and>
     pscale_orig r = NaN"

definition pareto_nan :: "prcp_row \<Rightarrow> bool" where
  "pareto_nan r \<longleftrightarrow> pshape r = NaN \<and> pscale r = NaN \<and> pscale_orig r = NaN"

text \<open>
  The entries that the loop leaves at the position of a threshold: the number of
  exceedances, and the Pareto shape, the scale at the crossover point and the fitted
  scale when the fit ran and returned.
\<close>

definition gp_at :: "scipy_stats \<Rightarrow> real list \<Rightarrow> flt \<Rightarrow> flt \<Rightarrow> real \<Rightarrow> flt \<times> flt \<times> flt \<times> flt" where
  "gp_at sc vals gsh gsc t =
     (let arr = exceedances vals t; c = Fin (real (length arr))
      in if length arr > 10 then
           (case genpareto_fit sc arr t of
              Inl e \<Rightarrow> (c, NaN, NaN, NaN)
            | Inr (sh, so) \<Rightarrow>
                (c, sh, flt_div (flt_sub (Fin 1) (gamma_cdf sc t gsh gsc)) (gamma_pdf sc t gsh gsc), so))
         else (c, NaN, NaN, NaN))"

definition arr_at :: "gp_arrays \<Rightarrow> nat \<Rightarrow> flt \<times> flt \<times> flt \<times> flt" where
  "arr_at a i = (a_ngp a ! i, a_pshape a ! i, a_pscale a ! i, a_pscale_orig a ! i)"

definition arr_len :: "nat \<Rightarrow> gp_arrays \<Rightarrow> bool" where
  "arr_len n a \<longleftrightarrow> length (a_ngp a) = n \<and> length (a_pshape a) = n \<and>
     length (a_pscale a) = n \<and> length (a_pscale_orig a) = n"

text \<open>The row of a threshold with the entries of the four lists.\<close>

definition row_of_gp ::
  "nat \<Rightarrow> nat \<Rightarrow> flt \<Rightarrow> flt \<Rightarrow> flt \<Rightarrow> real \<Rightarrow> flt \<times> flt \<times> flt \<times> flt \<Rightarrow> prcp_row" where
  "row_of_gp n ng mw gsh gsc t q =
     (case q of (c, sh, ps, so) \<Rightarrow>
        \<lparr> pr_n = n, ngamma = ng, mean_wet = mw, ngp = c, thresh = t, gshape = gsh,
          gscale = gsc, pshape = sh, pscale = ps, pscale_orig = so \<rparr>)"

definition nan4 :: "flt \<times> flt \<times> flt \<times> flt" where
  "nan4 = (NaN, NaN, NaN, NaN)"

text \<open>
  Fits that raise: the Gamma fit on a sample holding the value 13, the Pareto fit at the
  threshold 5.  A daily frame with twelve wet days of station \<open>ST1\<close>, eleven wet days
  with the amount 13 of station \<open>ST2\<close> and three wet days of station \<open>ST3\<close>.
\<close>

definition example_stats :: scipy_stats where
  "example_stats =
     \<lparr> gamma_fit = (\<lambda>vals. if 13 \<in> set vals then Inl ''gamma'' else Inr (Fin 2, Fin 3)),
       genpareto_fit = (\<lambda>arr t. if t = 5 then Inl ''genpareto'' else Inr (Fin 1, Fin 4)),
       gamma_cdf = (\<lambda>x a b. Fin (1/2)),
       gamma_pdf = (\<lambda>x a b. Fin (1/4)) \<rparr>"

definition example_wet_days :: "station \<Rightarrow> int \<Rightarrow> int \<Rightarrow> real \<Rightarrow> day_row list" where
  "example_wet_days s m n v =
     map (\<lambda>d. \<lparr>d_id = s, d_year = 1990, d_month = m, d_day = d, prcp = Fin v,
                tmin = Fin 0, tmax = Fin 5\<rparr>) [1 .. n]"

definition example_prcp_days :: "day_row list" where
  "example_prcp_days =
     example_wet_days ''ST1'' 1 12 6 @ example_wet_days ''ST2'' 1 11 13 @
     example_wet_days ''ST3'' 2 3 6"

definition example_config :: prcp_config where
  "example_config = \<lparr> cfg_thresh = 5, cfg_threshs2compute = [2, 20] \<rparr>"

text \<open>The same fits, raising on every sample of 10 or fewer values.\<close>

definition example_stats_few :: scipy_stats where
  "example_stats_few =
     example_stats
       \<lparr> gamma_fit := (\<lambda>vals. if length vals \<le> 10 then Inl ''few'' else gamma_fit example_stats vals),
         genpareto_fit := (\<lambda>arr t. if length arr \<le> 10 then Inl ''few''
                                    else genpareto_fit example_stats arr t) \<rparr>"

definition nan_row :: "nat \<Rightarrow> nat \<Rightarrow> flt \<Rightarrow> real \<Rightarrow> prcp_row" where
  "nan_row n ng mw t =
     \<lparr> pr_n = n, ngamma = ng, mean_wet = mw, ngp = NaN, thresh = t, gshape = NaN,
       gscale = NaN, pshape = NaN, pscale = NaN, pscale_orig = NaN \<rparr>"

definition world0 :: world where
  "world0 = \<lparr> logged = [], csv_files = [], tmp_next = 0 \<rparr>"

section \<open>Collecting the namelists of the run steps (\<open>ModelOrganizer.param\<close>)\<close>
















section \<open>The registry of the parameterization tasks and their order\<close>

text \<open>
  The task classes of \<open>parameterization.py\<close> with their \<open>name\<close> and
  \<open>setup_requires\<close>, in the order of their definition (the order in which subclassing
  registers them).  \<open>DailyGHCNData\<close> and \<open>HourlyCloud\<close> read raw data and declare no
  \<open>setup_requires\<close>; the abstract \<open>CloudParameterizerBase\<close> has no name and is no task.
\<close>

record task_descriptor =
  t_name :: string
  setup_requires :: "string list"

definition registry :: "task_descriptor list" where
  "registry =
    [\<lparr>t_name = ''day'', setup_requires = []\<rparr>,
     \<lparr>t_name = ''month'', setup_requires = [''day'']\<rparr>,
     \<lparr>t_name = ''cmonth'', setup_requires = [''month'']\<rparr>,
     \<lparr>t_name = ''yearly_cmonth'', setup_requires = [''month'']\<rparr>,
     \<lparr>t_name = ''cday'', setup_requires = [''day'', ''month'']\<rparr>,
     \<lparr>t_name = ''yearly_cday'', setup_requires = [''day'', ''month'']\<rparr>,
     \<lparr>t_name = ''prcp'', setup_requires = [''cday'']\<rparr>,
     \<lparr>t_name = ''markov'', setup_requires = [''cday'']\<rparr>,
     \<lparr>t_name = ''temp'', setup_requires = [''cday'']\<rparr>,
     \<lparr>t_name = ''hourly_cloud'', setup_requires = []\<rparr>,
     \<lparr>t_name = ''daily_cloud'', setup_requires = [''hourly_cloud'']\<rparr>,
     \<lparr>t_name = ''monthly_cloud'', setup_requires = [''daily_cloud'']\<rparr>,
     \<lparr>t_name = ''cmonthly_cloud'', setup_requires = [''monthly_cloud'']\<rparr>,
     \<lparr>t_name = ''yearly_cmonthly_cloud'', setup_requires = [''cmonthly_cloud'']\<rparr>,
     \<lparr>t_name = ''cloud'', setup_requires = [''cmonthly_cloud'']\<rparr>,
     \<lparr>t_name = ''cdaily_cloud'', setup_requires = [''daily_cloud'', ''monthly_cloud'']\<rparr>,
     \<lparr>t_name = ''yearly_cdaily_cloud'', setup_requires = [''cdaily_cloud'', ''cmonthly_cloud'']\<rparr>,
     \<lparr>t_name = ''corr'', setup_requires = [''yearly_cdaily_cloud'']\<rparr>]"

text \<open>The declared prerequisite edges: \<open>(a, b)\<close> when the task \<open>a\<close> requires \<open>b\<close>.\<close>

definition requires_rel :: "task_descriptor list \<Rightarrow> (string \<times> string) set" where
  "requires_rel reg = {(a, b). \<exists>t \<in> set reg. t_name t = a \<and> b \<in> set (setup_requires t)}"

text \<open>
  Modelled from the spec: the dependency resolver (\<open>sort_by_requirement\<close> and the
  set-up of the task chain in \<open>gwgen.utils\<close>, which is not among the sources).  Given the
  requested task names it returns every requested task and every transitive
  prerequisite exactly once, each task after all of its prerequisites; among the tasks
  that are ready the one registered last comes first.  It fails with
  \<open>UnknownTaskError\<close> for a name that is not registered and with
  \<open>CyclicDependencyError\<close> when no task is ready.
\<close>

datatype resolve_error = UnknownTaskError string | CyclicDependencyError

definition lookup_task :: "task_descriptor list \<Rightarrow> string \<Rightarrow> task_descriptor option" where
  "lookup_task reg n = find (\<lambda>t. t_name t = n) reg"

definition add_requirements :: "task_descriptor list \<Rightarrow> string list \<Rightarrow> string list" where
  "add_requirements reg names =
     remdups (names @ concat (map (\<lambda>n. case lookup_task reg n of
                                            None \<Rightarrow> [] | Some t \<Rightarrow> setup_requires t) names))"

text \<open>One round of adding requirements for every registered task reaches all of them.\<close>

primrec close_under ::
  "task_descriptor list \<Rightarrow> task_descriptor list \<Rightarrow> string list \<Rightarrow> string list" where
  "close_under reg [] names = names"
| "close_under reg (t # rounds) names = close_under reg rounds (add_requirements reg names)"

definition closure :: "task_descriptor list \<Rightarrow> string list \<Rightarrow> string list" where
  "closure reg requested = close_under reg reg (remdups requested)"

primrec order_tasks ::
  "nat \<Rightarrow> task_descriptor list \<Rightarrow> string list \<Rightarrow> resolve_error + string list" where
  "order_tasks 0 pending placed = Inr placed"
| "order_tasks (Suc n) pending placed =
     (case find (\<lambda>t. set (setup_requires t) \<subseteq> set placed) pending of
        None \<Rightarrow> Inl CyclicDependencyError
      | Some t \<Rightarrow> order_tasks n (remove1 t pending) (placed @ [t_name t]))"

definition resolve :: "task_descriptor list \<Rightarrow> string list \<Rightarrow> resolve_error + string list" where
  "resolve reg requested =
     (let cl = closure reg requested
      in case find (\<lambda>n. lookup_task reg n = None) cl of
           Some n \<Rightarrow> Inl (UnknownTaskError n)
         | None \<Rightarrow>
             (let pending = filter (\<lambda>t. t_name t \<in> set cl) (rev reg)
              in order_tasks (length pending) pending []))"

text \<open>Every task of a sequence comes after all of its declared prerequisites.\<close>

fun in_order :: "task_descriptor list \<Rightarrow> string list \<Rightarrow> string list \<Rightarrow> bool" where
  "in_order reg placed [] = True"
| "in_order reg placed (n # rest) =
     ((case lookup_task reg n of
         None \<Rightarrow> False
       | Some t \<Rightarrow> set (setup_requires t) \<subseteq> set placed) \<and>
      in_order reg (placed @ [n]) rest)"

text \<open>The chain that the specification names for the cross-correlation task.\<close>

definition spec_corr_chain :: "string list" where
  "spec_corr_chain =
     [''day'', ''month'', ''cday'', ''hourly_cloud'', ''daily_cloud'', ''monthly_cloud'',
      ''cmonthly_cloud'', ''yearly_cmonthly_cloud'', ''cdaily_cloud'', ''yearly_cdaily_cloud'']"

text \<open>The prerequisites of the cross-correlation task by the declarations of the source.\<close>

definition corr_prerequisites :: "string list" where
  "corr_prerequisites =
     [''hourly_cloud'', ''daily_cloud'', ''monthly_cloud'', ''cdaily_cloud'',
      ''cmonthly_cloud'', ''yearly_cdaily_cloud'']"

section \<open>The run step of the cross correlation (\<open>CrossCorrelation.run\<close>)\<close>

text \<open>
  The data of the task is a table with one row for each of the variables \<open>tmin\<close>,
  \<open>tmax\<close> and \<open>mean_cloud\<close>: the columns \<open>tmin\<close>, \<open>tmax\<close>, \<open>mean_cloud\<close> hold
  the correlation matrix \<open>M0\<close>, the columns \<open>tmin1\<close>, \<open>tmax1\<close>, \<open>mean_cloud1\<close> the
  lag-1 cross correlations \<open>M1\<close>.  The entries are numbers, idealised as exact reals.
\<close>

record corr_row =
  r_tmin :: real
  r_tmax :: real
  r_mean_cloud :: real
  r_tmin1 :: real
  r_tmax1 :: real
  r_mean_cloud1 :: real

type_synonym matrix = "real list list"

text \<open>\<open>m0 = self.data[cols]\<close> and \<open>m1 = self.data[lag1_cols]\<close> with the columns renamed.\<close>

definition m0_of :: "corr_row list \<Rightarrow> matrix" where
  "m0_of data = map (\<lambda>r. [r_tmin r, r_tmax r, r_mean_cloud r]) data"

definition m1_of :: "corr_row list \<Rightarrow> matrix" where
  "m1_of data = map (\<lambda>r. [r_tmin1 r, r_tmax1 r, r_mean_cloud1 r]) data"

text \<open>
  \<open>np.dot\<close> of two matrices, the difference of two matrices; the transpose \<open>m.T\<close> is
  \<open>transpose\<close> of the list library.
\<close>

definition dot :: "matrix \<Rightarrow> matrix \<Rightarrow> matrix" where
  "dot a b = map (\<lambda>row. map (\<lambda>col. sum_list (map2 (*) row col)) (transpose b)) a"

definition mat_sub :: "matrix \<Rightarrow> matrix \<Rightarrow> matrix" where
  "mat_sub a b = map2 (map2 (-)) a b"

text \<open>
  \<open>np.linalg.inv\<close> and \<open>np.linalg.cholesky\<close> are parameters of the model: each
  returns a matrix or raises \<open>LinAlgError\<close> (a singular matrix, a matrix that is not
  positive definite).
\<close>

datatype linalg_error = LinAlgError

record linalg =
  linalg_inv :: "matrix \<Rightarrow> linalg_error + matrix"
  linalg_cholesky :: "matrix \<Rightarrow> linalg_error + matrix"

text \<open>
  \<open>run\<close>: the assignments to the section \<open>weathergen_ctl\<close> of the namelist (the keys
  \<open>a\<close> and \<open>b\<close>) and to \<open>info\<close> (the keys \<open>M0\<close> and \<open>M1\<close>), or the exception
  that leaves the function.
\<close>

definition corr_run ::
  "linalg \<Rightarrow> corr_row list \<Rightarrow>
     linalg_error + ((string \<times> matrix) list \<times> (string \<times> matrix) list)" where
  "corr_run la data =
     (let m0 = m0_of data;
          m1 = m1_of data
      in case linalg_inv la m0 of
           Inl e \<Rightarrow> Inl e
         | Inr m0i \<Rightarrow>
             (case linalg_cholesky la (mat_sub m0 (dot (dot m1 m0i) (transpose m1))) of
                Inl e \<Rightarrow> Inl e
              | Inr l \<Rightarrow>
                  Inr ([(''a'', dot m1 m0i), (''b'', transpose l)],
                       [(''M0'', m0), (''M1'', m1)])))"

text \<open>Matrices of three rows and three columns; the unit matrix; symmetry.\<close>

definition is_mat3 :: "matrix \<Rightarrow> bool" where
  "is_mat3 m \<longleftrightarrow> length m = 3 \<and> list_all (\<lambda>r. length r = 3) m"

definition identity3 :: matrix where
  "identity3 = [[1, 0, 0], [0, 1, 0], [0, 0, 1]]"

definition symmetric :: "matrix \<Rightarrow> bool" where
  "symmetric m \<longleftrightarrow> transpose m = m"

text \<open>
  The matrix that \<open>cholesky\<close> factors: it reads the lower triangle and the diagonal of
  its argument only.
\<close>

definition lower_sym :: "matrix \<Rightarrow> matrix" where
  "lower_sym m =
     map (\<lambda>i. map (\<lambda>j. if j \<le> i then m ! i ! j else m ! j ! i) [0 ..< length m]) [0 ..< length m]"

definition lower_triangular :: "matrix \<Rightarrow> bool" where
  "lower_triangular l \<longleftrightarrow>
     list_all (\<lambda>i. list_all (\<lambda>j. i < j \<longrightarrow> l ! i ! j = 0) [0 ..< length l]) [0 ..< length l]"

text \<open>
  What the documentation of numpy promises of the two functions at an argument: the
  result of \<open>inv\<close> is the inverse, the result of \<open>cholesky\<close> is a lower-triangular
  matrix \<open>L\<close> whose product with its transpose is the argument.
\<close>

definition inv_contract :: "linalg \<Rightarrow> matrix \<Rightarrow> bool" where
  "inv_contract la m \<longleftrightarrow>
     (case linalg_inv la m of
        Inl e \<Rightarrow> True
      | Inr mi \<Rightarrow> is_mat3 mi \<and> dot m mi = identity3 \<and> dot mi m = identity3)"

definition cholesky_contract :: "linalg \<Rightarrow> matrix \<Rightarrow> bool" where
  "cholesky_contract la m \<longleftrightarrow>
     (case linalg_cholesky la m of
        Inl e \<Rightarrow> True
      | Inr l \<Rightarrow> is_mat3 l \<and> lower_triangular l \<and> dot l (transpose l) = lower_sym m)"

text \<open>The two functions in exact arithmetic, for matrices of three rows and columns.\<close>

definition exact_inv :: "matrix \<Rightarrow> linalg_error + matrix" where
  "exact_inv m =
     (case m of
        [[a, b, c], [d, e, f], [g, h, i]] \<Rightarrow>
          (let det = a * (e * i - f * h) - b * (d * i - f * g) + c * (d * h - e * g)
           in if det = 0 then Inl LinAlgError
              else Inr [[(e * i - f * h) / det, (c * h - b * i) / det, (b * f - c * e) / det],
                        [(f * g - d * i) / det, (a * i - c * g) / det, (c * d - a * f) / det],
                        [(d * h - e * g) / det, (b * g - a * h) / det, (a * e - b * d) / det]])
      | _ \<Rightarrow> Inl LinAlgError)"

definition exact_cholesky :: "matrix \<Rightarrow> linalg_error + matrix" where
  "exact_cholesky m =
     (case m of
        [[a, b, c], [d, e, f], [g, h, i]] \<Rightarrow>
          (if a \<le> 0 then Inl LinAlgError
           else let l11 = sqrt a; l21 = d / l11; l31 = g / l11
             in if e - l21 * l21 \<le> 0 then Inl LinAlgError
                else let l22 = sqrt (e - l21 * l21); l32 = (h - l31 * l21) / l22
                  in if i - l31 * l31 - l32 * l32 \<le> 0 then Inl LinAlgError
                     else Inr [[l11, 0, 0], [l21, l22, 0],
                               [l31, l32, sqrt (i - l31 * l31 - l32 * l32)]])
      | _ \<Rightarrow> Inl LinAlgError)"

definition exact_linalg :: linalg where
  "exact_linalg = \<lparr> linalg_inv = exact_inv, linalg_cholesky = exact_cholesky \<rparr>"

text \<open>
  A table: the correlation 3/5 of \<open>tmin\<close> and \<open>tmax\<close>, and lag-1 correlations that are
  3/5 of the correlations.
\<close>

definition example_corr :: "corr_row list" where
  "example_corr =
     [\<lparr>r_tmin = 1, r_tmax = 3/5, r_mean_cloud = 0,
        r_tmin1 = 3/5, r_tmax1 = 9/25, r_mean_cloud1 = 0\<rparr>,
      \<lparr>r_tmin = 3/5, r_tmax = 1, r_mean_cloud = 0,
        r_tmin1 = 9/25, r_tmax1 = 3/5, r_mean_cloud1 = 0\<rparr>,
      \<lparr>r_tmin = 0, r_tmax = 0, r_mean_cloud = 1,
        r_tmin1 = 0, r_tmax1 = 0, r_mean_cloud1 = 3/5\<rparr>]"

section \<open>Properties of the grouping\<close>

lemma groupby_keys: "map fst (groupby key rows) = sort (remdups (map key rows))"
  by (simp add: groupby_def comp_def)

lemma groupby_distinct: "distinct (map fst (groupby key rows))"
  by (simp add: groupby_keys)

lemma groupby_mem:
  "(k, g) \<in> set (groupby key rows) \<longleftrightarrow> k \<in> key ` set rows \<and> g = filter (\<lambda>r. key r = k) rows"
  by (auto simp: groupby_def)

lemma groupby_apply_mem:
  "(k, a) \<in> set (groupby_apply key f rows) \<longleftrightarrow>
     k \<in> key ` set rows \<and> a \<in> set (f (filter (\<lambda>r. key r = k) rows))"
proof
  assume "(k, a) \<in> set (groupby_apply key f rows)"
  then obtain g where "(k, g) \<in> set (groupby key rows)" "a \<in> set (f g)"
    by (auto simp: groupby_apply_def)
  then show "k \<in> key ` set rows \<and> a \<in> set (f (filter (\<lambda>r. key r = k) rows))"
    by (simp add: groupby_mem)
next
  assume "k \<in> key ` set rows \<and> a \<in> set (f (filter (\<lambda>r. key r = k) rows))"
  then have "(k, filter (\<lambda>r. key r = k) rows) \<in> set (groupby key rows)"
    and "a \<in> set (f (filter (\<lambda>r. key r = k) rows))"
    by (simp_all add: groupby_mem)
  then show "(k, a) \<in> set (groupby_apply key f rows)"
    unfolding groupby_apply_def by force
qed

section \<open>The wet-day flag of the daily cloud data\<close>

lemma wet_code_spec: "wet_code w = spec_wet_code w"
  by (cases w) (auto simp: wet_code_def spec_wet_code_def)

text \<open>
  Claim C10.  Every row that the daily-cloud derivation emits for a calendar day has the
  flag \<open>wet_day = 1\<close> if and only if one of the hourly present-weather codes of that
  station and day lies in 50..75, is 77, is 79 or lies in 80..99, and it has \<open>wet_day = 0\<close>
  otherwise; a day whose hourly codes are all 76 or 78 is dry.
\<close>

theorem daily_cloud_wet_day:
  "(k, d) \<in> set (daily_cloud_setup_from_scratch df) \<Longrightarrow>
     (wet_day d = 1 \<longleftrightarrow> (\<exists>r \<in> set df. day_key r = k \<and> spec_wet_code (h_ww r))) \<and>
     (wet_day d = 0 \<longleftrightarrow> \<not> (\<exists>r \<in> set df. day_key r = k \<and> spec_wet_code (h_ww r))) \<and>
     ((\<forall>r \<in> set df. day_key r = k \<longrightarrow> h_ww r = Fin 76 \<or> h_ww r = Fin 78) \<longrightarrow> wet_day d = 0)"
proof -
  assume mem: "(k, d) \<in> set (daily_cloud_setup_from_scratch df)"
  let ?g = "filter (\<lambda>r. day_key r = k) df"
  from mem have d: "d \<in> set (calculate_daily ?g)"
    by (simp add: daily_cloud_setup_from_scratch_def groupby_apply_mem)
  have ex: "list_ex wet_code (map h_ww ?g) \<longleftrightarrow> (\<exists>r \<in> set df. day_key r = k \<and> spec_wet_code (h_ww r))"
    by (auto simp: list_ex_iff wet_code_spec)
  have w: "wet_day d = (if list_ex wet_code (map h_ww ?g) then 1 else 0)"
    using d by (auto simp: calculate_daily_def)
  have no: "(\<forall>r \<in> set df. day_key r = k \<longrightarrow> h_ww r = Fin 76 \<or> h_ww r = Fin 78) \<Longrightarrow>
      \<not> (\<exists>r \<in> set df. day_key r = k \<and> spec_wet_code (h_ww r))"
    by (auto simp: spec_wet_code_def)
  show ?thesis
    using w ex no by auto
qed

theorem daily_cloud_wet_day_witness:
  "((''ST1'', 1990, 1, 1),
      \<lparr>wet_day = 1, dc_tmin = Fin 1, dc_tmax = Fin 3, mean_cloud = Fin (3/4), wind = NaN\<rparr>)
     \<in> set (daily_cloud_setup_from_scratch example_hourly) \<and>
   (\<exists>r \<in> set example_hourly. day_key r = (''ST1'', 1990, 1, 1) \<and> spec_wet_code (h_ww r)) \<and>
   ((''ST1'', 1990, 1, 2),
      \<lparr>wet_day = 0, dc_tmin = NaN, dc_tmax = NaN, mean_cloud = NaN, wind = NaN\<rparr>)
     \<in> set (daily_cloud_setup_from_scratch example_hourly) \<and>
   \<not> (\<exists>r \<in> set example_hourly. day_key r = (''ST1'', 1990, 1, 2) \<and> spec_wet_code (h_ww r))"
proof -
  have run: "daily_cloud_setup_from_scratch example_hourly =
    [((''ST1'', 1990, 1, 1),
       \<lparr>wet_day = 1, dc_tmin = Fin 1, dc_tmax = Fin 3, mean_cloud = Fin (3/4), wind = NaN\<rparr>),
     ((''ST1'', 1990, 1, 2),
       \<lparr>wet_day = 0, dc_tmin = NaN, dc_tmax = NaN, mean_cloud = NaN, wind = NaN\<rparr>)]"
    by code_simp
  have m1: "((''ST1'', 1990, 1, 1),
       \<lparr>wet_day = 1, dc_tmin = Fin 1, dc_tmax = Fin 3, mean_cloud = Fin (3/4), wind = NaN\<rparr>)
     \<in> set (daily_cloud_setup_from_scratch example_hourly)"
    by (simp add: run)
  have m2: "((''ST1'', 1990, 1, 2),
       \<lparr>wet_day = 0, dc_tmin = NaN, dc_tmax = NaN, mean_cloud = NaN, wind = NaN\<rparr>)
     \<in> set (daily_cloud_setup_from_scratch example_hourly)"
    by (simp add: run)
  show ?thesis
    using m1 m2 daily_cloud_wet_day [OF m1] daily_cloud_wet_day [OF m2] by simp
qed

section \<open>The Markov chain ratios\<close>

lemma mask_sum_and_le: "mask_sum (mask_and a b) \<le> mask_sum a"
  unfolding mask_sum_def mask_and_def
proof (induction a arbitrary: b)
  case Nil
  then show ?case by simp
next
  case (Cons x a)
  show ?case
  proof (cases b)
    case Nil
    then show ?thesis by simp
  next
    case (Cons y b')
    with Cons.IH [of b'] show ?thesis by auto
  qed
qed

lemma mask_sum_le_length: "mask_sum m \<le> length m"
  by (simp add: mask_sum_def)

lemma calc_ndays_ok: "calc_ndays df = Some r \<Longrightarrow> ndays_ok r"
proof -
  assume a: "calc_ndays df = Some r"
  have "mask_sum (gt0 (take (length df - 1) (map prcp df))) \<le> length df"
    using mask_sum_le_length [of "gt0 (take (length df - 1) (map prcp df))"]
    by (simp add: gt0_def)
  with a show ?thesis
    by (auto simp: calc_ndays_def ndays_ok_def Let_def mask_sum_and_le split: if_splits)
qed

lemma ndays_sum_ok: "(\<And>r. Some r \<in> set rs \<Longrightarrow> ndays_ok r) \<Longrightarrow> ndays_ok (ndays_sum rs)"
proof (induction rs rule: ndays_sum.induct)
  case 1
  then show ?case by (simp add: ndays_ok_def ndays_zero_def)
next
  case (2 rs)
  then show ?case by simp
next
  case (3 r rs)
  then have "ndays_ok r" "ndays_ok (ndays_sum rs)" by auto
  then show ?case by (simp add: ndays_ok_def ndays_add_def)
qed

lemma pooled_ndays_ok: "ndays_ok (pooled_ndays df)"
  unfolding pooled_ndays_def
  by (rule ndays_sum_ok) (auto intro: calc_ndays_ok [OF sym])

lemma ratio_unit: "a \<le> b \<Longrightarrow> unit_interval (ratio a b)"
  by (simp add: ratio_def unit_interval_def)

lemma ratio_zero: "ratio a 0 = Fin 0"
  by (simp add: ratio_def)


lemma markov_rows:
  "(k, m) \<in> set (markov_setup_from_scratch df) \<longleftrightarrow>
     k \<in> station_month_key ` set df \<and> m \<in> set (markov_calculate_probabilities (station_month k df))"
  by (simp add: markov_setup_from_scratch_def groupby_apply_mem station_month_def)

text \<open>
  Claim C4.  Every row the Markov-chain task emits belongs to a station and month with
  more than 10 pooled year-month groups; each of its five ratios \<open>p11\<close>, \<open>p01\<close>,
  \<open>p001\<close>, \<open>p101\<close> and \<open>wetf\<close> is a number in the interval from 0 to 1 (never
  \<open>nan\<close>), and each is exactly 0 when its denominator count (\<open>nwet\<close>, \<open>ndry\<close>,
  \<open>np001_denom\<close>, \<open>np101_denom\<close>, \<open>n\<close>) is 0.
\<close>

theorem markov_ratios:
  "(k, m) \<in> set (markov_setup_from_scratch df) \<Longrightarrow>
     10 < ngroups (station_month k df) \<and>
     unit_interval (p11 m) \<and> unit_interval (p01 m) \<and> unit_interval (p001 m) \<and>
     unit_interval (p101 m) \<and> unit_interval (wetf m) \<and>
     (nwet (pooled_ndays (station_month k df)) = 0 \<longrightarrow> p11 m = Fin 0) \<and>
     (ndry (pooled_ndays (station_month k df)) = 0 \<longrightarrow> p01 m = Fin 0) \<and>
     (np001_denom (pooled_ndays (station_month k df)) = 0 \<longrightarrow> p001 m = Fin 0) \<and>
     (np101_denom (pooled_ndays (station_month k df)) = 0 \<longrightarrow> p101 m = Fin 0) \<and>
     (n_len (pooled_ndays (station_month k df)) = 0 \<longrightarrow> wetf m = Fin 0)"
proof -
  assume "(k, m) \<in> set (markov_setup_from_scratch df)"
  then have m: "m \<in> set (markov_calculate_probabilities (station_month k df))"
    by (simp add: markov_rows)
  define dfs where "dfs = pooled_ndays (station_month k df)"
  have ok: "ndays_ok dfs"
    unfolding dfs_def by (rule pooled_ndays_ok)
  from m have big: "10 < ngroups (station_month k df)"
    by (auto simp: markov_calculate_probabilities_def split: if_splits)
  with m have row: "m = \<lparr> p11 = ratio (np11 dfs) (nwet dfs), p01 = ratio (np01 dfs) (ndry dfs),
      p001 = ratio (np001 dfs) (np001_denom dfs), p101 = ratio (np101 dfs) (np101_denom dfs),
      wetf = ratio (nwet dfs) (n_len dfs) \<rparr>"
    by (simp add: markov_calculate_probabilities_def dfs_def Let_def)
  have "unit_interval (p11 m)" "unit_interval (p01 m)" "unit_interval (p001 m)"
    "unit_interval (p101 m)" "unit_interval (wetf m)"
    using ok by (simp_all add: row ndays_ok_def ratio_unit)
  moreover have "nwet dfs = 0 \<longrightarrow> p11 m = Fin 0" "ndry dfs = 0 \<longrightarrow> p01 m = Fin 0"
    "np001_denom dfs = 0 \<longrightarrow> p001 m = Fin 0" "np101_denom dfs = 0 \<longrightarrow> p101 m = Fin 0"
    "n_len dfs = 0 \<longrightarrow> wetf m = Fin 0"
    by (simp_all add: row ratio_zero)
  ultimately show ?thesis
    using big unfolding dfs_def by simp
qed

theorem markov_ratios_witness:
  "((''ST1'', 1), \<lparr>p11 = Fin 0, p01 = Fin 1, p001 = Fin 0, p101 = Fin 1, wetf = Fin (1/3)\<rparr>)
      \<in> set (markov_setup_from_scratch example_days) \<and>
   ngroups (station_month (''ST1'', 1) example_days) = 11 \<and>
   np001_denom (pooled_ndays (station_month (''ST1'', 1) example_days)) = 0 \<and>
   nwet (pooled_ndays (station_month (''ST1'', 1) example_days)) = 11 \<and>
   unit_interval (Fin (1/3))"
proof -
  have run: "markov_setup_from_scratch example_days =
      [((''ST1'', 1), \<lparr>p11 = Fin 0, p01 = Fin 1, p001 = Fin 0, p101 = Fin 1, wetf = Fin (1/3)\<rparr>)]"
    by code_simp
  have mem: "((''ST1'', 1), \<lparr>p11 = Fin 0, p01 = Fin 1, p001 = Fin 0, p101 = Fin 1, wetf = Fin (1/3)\<rparr>)
      \<in> set (markov_setup_from_scratch example_days)"
    by (simp add: run)
  have n: "ngroups (station_month (''ST1'', 1) example_days) = 11"
    by code_simp
  have d: "np001_denom (pooled_ndays (station_month (''ST1'', 1) example_days)) = 0"
    by code_simp
  have w: "nwet (pooled_ndays (station_month (''ST1'', 1) example_days)) = 11"
    by code_simp
  show ?thesis
    using mem n d w markov_ratios [OF mem] by simp
qed

text \<open>
  Claim C8.  For a station and month whose pooled (year, month) groups number 10 or
  fewer, \<open>calculate_probabilities\<close> returns the empty frame instead of computed
  transition probabilities, and the data of the task holds no row for that station and
  month.
\<close>

theorem markov_few_groups_empty:
  "ngroups (station_month k df) \<le> 10 \<Longrightarrow>
     markov_calculate_probabilities (station_month k df) = [] \<and>
     (\<forall>m. (k, m) \<notin> set (markov_setup_from_scratch df))"
  by (simp add: markov_rows markov_calculate_probabilities_def)

theorem markov_few_groups_empty_witness:
  "ngroups (station_month (''ST2'', 1) example_days) = 1 \<and>
   (''ST2'', 1) \<in> station_month_key ` set example_days \<and>
   markov_calculate_probabilities (station_month (''ST2'', 1) example_days) = [] \<and>
   (\<forall>m. ((''ST2'', 1), m) \<notin> set (markov_setup_from_scratch example_days))"
proof -
  have n: "ngroups (station_month (''ST2'', 1) example_days) = 1"
    by code_simp
  have k: "(''ST2'', 1) \<in> set (map station_month_key example_days)"
    by code_simp
  have le: "ngroups (station_month (''ST2'', 1) example_days) \<le> 10"
    by (simp add: n)
  show ?thesis
    using n k markov_few_groups_empty [OF le] by simp
qed

section \<open>The temperature ranges on wet and dry days\<close>




















section \<open>The precipitation distribution parameters\<close>

lemma gp_step_result:
  assumes "arr_len n a" "i < n" "a_pshape a ! i = NaN" "a_pscale a ! i = NaN"
    "a_pscale_orig a ! i = NaN"
    and "gp_step sc df vals gsh gsc (i, t) (a, w) = (a', w')"
  shows "arr_len n a'" "arr_at a' i = gp_at sc vals gsh gsc t"
    "\<And>j. j \<noteq> i \<Longrightarrow> arr_at a' j = arr_at a j"
    "w' = (if gp_fit_fails sc vals t then report_fit_error df w else w)"
  using assms
  by (auto simp: gp_step_def Let_def arr_len_def arr_at_def gp_at_def exceedances_def
      gp_fit_fails_def split: if_splits sum.splits prod.splits)

lemma gp_loop_result:
  assumes "arr_len n a" "k + length ts \<le> n"
    and "\<And>i. k \<le> i \<Longrightarrow> i < n \<Longrightarrow>
           a_pshape a ! i = NaN \<and> a_pscale a ! i = NaN \<and> a_pscale_orig a ! i = NaN"
    and "gp_loop sc df vals gsh gsc (enumerate k ts) (a, w) = (a', w')"
  shows "arr_len n a' \<and>
    (\<forall>i. k \<le> i \<and> i < k + length ts \<longrightarrow> arr_at a' i = gp_at sc vals gsh gsc (ts ! (i - k))) \<and>
    (\<forall>i. i < k \<longrightarrow> arr_at a' i = arr_at a i) \<and>
    w' = (report_fit_error df ^^ length (filter (gp_fit_fails sc vals) ts)) w"
  using assms
proof (induction ts arbitrary: k a w)
  case Nil
  then show ?case by auto
next
  case (Cons t ts)
  obtain a1 w1 where step: "gp_step sc df vals gsh gsc (k, t) (a, w) = (a1, w1)"
    by (cases "gp_step sc df vals gsh gsc (k, t) (a, w)")
  have kn: "k < n" using Cons.prems(2) by simp
  have nan: "a_pshape a ! k = NaN" "a_pscale a ! k = NaN" "a_pscale_orig a ! k = NaN"
    using Cons.prems(3) [of k] kn by simp_all
  note r = gp_step_result [OF Cons.prems(1) kn nan step]
  have rest: "gp_loop sc df vals gsh gsc (enumerate (Suc k) ts) (a1, w1) = (a', w')"
    using Cons.prems(4) step by simp
  have nan1: "a_pshape a1 ! i = NaN \<and> a_pscale a1 ! i = NaN \<and> a_pscale_orig a1 ! i = NaN"
    if "Suc k \<le> i" "i < n" for i
  proof -
    have "arr_at a1 i = arr_at a i" using r(3) [of i] that by simp
    moreover have "a_pshape a ! i = NaN \<and> a_pscale a ! i = NaN \<and> a_pscale_orig a ! i = NaN"
      using Cons.prems(3) [of i] that by simp
    ultimately show ?thesis by (simp add: arr_at_def)
  qed
  have len: "Suc k + length ts \<le> n" using Cons.prems(2) by simp
  note ih = Cons.IH [OF r(1) len nan1 rest]
  have a: "arr_len n a'" using ih by simp
  have b: "arr_at a' i = gp_at sc vals gsh gsc ((t # ts) ! (i - k))"
    if "k \<le> i \<and> i < k + length (t # ts)" for i
  proof (cases "i = k")
    case True
    then have "arr_at a' i = arr_at a1 k" using ih by simp
    then show ?thesis using r(2) True by simp
  next
    case False
    then have "Suc k \<le> i \<and> i < Suc k + length ts" using that by simp
    then have "arr_at a' i = gp_at sc vals gsh gsc (ts ! (i - Suc k))" using ih by blast
    moreover have "(t # ts) ! (i - k) = ts ! (i - Suc k)"
      using False that by (simp add: nth_Cons')
    ultimately show ?thesis by simp
  qed
  have c: "arr_at a' i = arr_at a i" if "i < k" for i
  proof -
    have "arr_at a' i = arr_at a1 i" using ih that by simp
    then show ?thesis using r(3) [of i] that by simp
  qed
  have d: "w' = (report_fit_error df ^^ length (filter (gp_fit_fails sc vals) (t # ts))) w"
    using ih r(4) by (simp add: funpow_swap1)
  show ?case using a b c d by blast
qed

lemma prcp_frame_map:
  assumes "arr_len (length threshs) a"
    and "\<And>i. i < length threshs \<Longrightarrow> arr_at a i = q (threshs ! i)"
  shows "prcp_frame n ng mw threshs gsh gsc a = map (\<lambda>t. row_of_gp n ng mw gsh gsc t (q t)) threshs"
proof (rule nth_equalityI)
  show "length (prcp_frame n ng mw threshs gsh gsc a) =
      length (map (\<lambda>t. row_of_gp n ng mw gsh gsc t (q t)) threshs)"
    by (simp add: prcp_frame_def)
next
  fix i
  assume "i < length (prcp_frame n ng mw threshs gsh gsc a)"
  then have i: "i < length threshs" by (simp add: prcp_frame_def)
  from assms(2) [OF i] have "q (threshs ! i) =
      (a_ngp a ! i, a_pshape a ! i, a_pscale a ! i, a_pscale_orig a ! i)"
    by (simp add: arr_at_def)
  with i show "prcp_frame n ng mw threshs gsh gsc a ! i =
      map (\<lambda>t. row_of_gp n ng mw gsh gsc t (q t)) threshs ! i"
    by (simp add: prcp_frame_def row_of_gp_def)
qed

lemma initial_arrays:
  "arr_len n \<lparr> a_ngp = replicate n NaN, a_pshape = replicate n NaN,
      a_pscale = replicate n NaN, a_pscale_orig = replicate n NaN \<rparr>"
  "i < n \<Longrightarrow> arr_at \<lparr> a_ngp = replicate n NaN, a_pshape = replicate n NaN,
      a_pscale = replicate n NaN, a_pscale_orig = replicate n NaN \<rparr> i = nan4"
  by (simp_all add: arr_len_def arr_at_def nan4_def)

lemma prcp_dist_params_eq:
  "prcp_dist_params sc df threshs w =
     (let vals = wet_vals df;
          n = length (dropna (map prcp df)) * length threshs;
          ng = length vals;
          mw = np_mean (map Fin vals)
      in if ng > 10 then
           (case gamma_fit sc vals of
              Inl e \<Rightarrow>
                Inr (map (\<lambda>t. row_of_gp n ng mw NaN NaN t nan4) threshs, report_fit_error df w)
            | Inr (gsh, gsc) \<Rightarrow>
                Inr (map (\<lambda>t. row_of_gp n ng mw gsh gsc t (gp_at sc vals gsh gsc t)) threshs,
                     (report_fit_error df ^^ length (filter (gp_fit_fails sc vals) threshs)) w))
         else Inr (map (\<lambda>t. row_of_gp n ng mw NaN NaN t nan4) threshs, w))"
proof -
  let ?N = "length threshs"
  let ?a0 = "\<lparr> a_ngp = replicate ?N NaN, a_pshape = replicate ?N NaN,
      a_pscale = replicate ?N NaN, a_pscale_orig = replicate ?N NaN \<rparr>"
  let ?vals = "wet_vals df"
  have frame0: "prcp_frame n ng mw threshs gsh gsc ?a0 =
      map (\<lambda>t. row_of_gp n ng mw gsh gsc t nan4) threshs" for n ng mw gsh gsc
    by (rule prcp_frame_map [where q = "\<lambda>t. nan4"]) (simp_all add: initial_arrays)
  have loop: "(case gp_loop sc df ?vals gsh gsc (enumerate 0 threshs) (?a0, w) of
        (a, w') \<Rightarrow> Inr (prcp_frame n ng mw threshs gsh gsc a, w')) =
      Inr (map (\<lambda>t. row_of_gp n ng mw gsh gsc t (gp_at sc ?vals gsh gsc t)) threshs,
           (report_fit_error df ^^ length (filter (gp_fit_fails sc ?vals) threshs)) w)"
    (is "?l = ?r") for n ng mw gsh gsc
  proof -
    obtain a w' where run: "gp_loop sc df ?vals gsh gsc (enumerate 0 threshs) (?a0, w) = (a, w')"
      by (cases "gp_loop sc df ?vals gsh gsc (enumerate 0 threshs) (?a0, w)")
    have nan: "a_pshape ?a0 ! i = NaN \<and> a_pscale ?a0 ! i = NaN \<and> a_pscale_orig ?a0 ! i = NaN"
      if "i < ?N" for i using that by simp
    have res: "arr_len ?N a \<and>
      (\<forall>i. 0 \<le> i \<and> i < 0 + length threshs \<longrightarrow> arr_at a i = gp_at sc ?vals gsh gsc (threshs ! (i - 0))) \<and>
      (\<forall>i. i < 0 \<longrightarrow> arr_at a i = arr_at ?a0 i) \<and>
      w' = (report_fit_error df ^^ length (filter (gp_fit_fails sc ?vals) threshs)) w"
      by (rule gp_loop_result [OF initial_arrays(1) _ _ run]) (simp_all add: nan)
    then have "prcp_frame n ng mw threshs gsh gsc a =
        map (\<lambda>t. row_of_gp n ng mw gsh gsc t (gp_at sc ?vals gsh gsc t)) threshs"
      by (intro prcp_frame_map) simp_all
    with res run show ?thesis by simp
  qed
  show ?thesis
    unfolding prcp_dist_params_def Let_def wet_vals_def [symmetric]
    by (simp add: frame0 loop [unfolded wet_vals_def] wet_vals_def split: sum.splits)
qed

lemma row_of_gp_simps:
  "thresh (row_of_gp n ng mw gsh gsc t q) = t"
  "gshape (row_of_gp n ng mw gsh gsc t q) = gsh"
  "gscale (row_of_gp n ng mw gsh gsc t q) = gsc"
  "(ngp (row_of_gp n ng mw gsh gsc t q), pshape (row_of_gp n ng mw gsh gsc t q),
    pscale (row_of_gp n ng mw gsh gsc t q), pscale_orig (row_of_gp n ng mw gsh gsc t q)) = q"
  by (cases q; simp add: row_of_gp_def)+

lemma gp_at_few: "length (exceedances vals t) \<le> 10 \<Longrightarrow>
    \<exists>c. gp_at sc vals gsh gsc t = (c, NaN, NaN, NaN)"
  by (simp add: gp_at_def Let_def)

lemma gp_at_fails: "gp_fit_fails sc vals t \<Longrightarrow> \<exists>c. gp_at sc vals gsh gsc t = (c, NaN, NaN, NaN)"
  by (auto simp: gp_at_def gp_fit_fails_def Let_def isl_def)

lemma pareto_nan_row:
  "q = (c, NaN, NaN, NaN) \<Longrightarrow> pareto_nan (row_of_gp n ng mw gsh gsc t q)"
  by (simp add: pareto_nan_def row_of_gp_def)

lemma all_nan_row: "all_nan (row_of_gp n ng mw NaN NaN t nan4)"
  by (simp add: all_nan_def row_of_gp_def nan4_def)

lemma prcp_rows_thresh:
  "prcp_dist_params sc df threshs w = Inr (frame, w') \<Longrightarrow> map thresh frame = threshs"
  by (auto simp: prcp_dist_params_eq Let_def row_of_gp_simps comp_def
      split: if_splits sum.splits prod.splits)

lemma gp_at_cong:
  assumes "\<And>arr t. 10 < length arr \<Longrightarrow> genpareto_fit sc2 arr t = genpareto_fit sc arr t"
    and "gamma_cdf sc2 = gamma_cdf sc" "gamma_pdf sc2 = gamma_pdf sc"
  shows "gp_at sc2 vals gsh gsc t = gp_at sc vals gsh gsc t"
    and "gp_fit_fails sc2 vals t = gp_fit_fails sc vals t"
proof -
  have fit: "10 < length (exceedances vals t) \<Longrightarrow>
      genpareto_fit sc2 (exceedances vals t) t = genpareto_fit sc (exceedances vals t) t"
    by (rule assms(1))
  show "gp_at sc2 vals gsh gsc t = gp_at sc vals gsh gsc t"
    by (simp add: gp_at_def Let_def fit assms(2,3) split: sum.splits prod.splits)
  show "gp_fit_fails sc2 vals t = gp_fit_fails sc vals t"
    using fit by (auto simp: gp_fit_fails_def)
qed

lemma prcp_dist_params_cong:
  assumes "\<And>arr t. 10 < length arr \<Longrightarrow> genpareto_fit sc2 arr t = genpareto_fit sc arr t"
    and "\<And>vals. 10 < length vals \<Longrightarrow> gamma_fit sc2 vals = gamma_fit sc vals"
    and "gamma_cdf sc2 = gamma_cdf sc" "gamma_pdf sc2 = gamma_pdf sc"
  shows "prcp_dist_params sc2 df threshs w = prcp_dist_params sc df threshs w"
proof -
  have g: "gp_at sc2 vals gsh gsc = gp_at sc vals gsh gsc" for vals gsh gsc
    using gp_at_cong(1) [of sc2 sc, OF assms(1,3,4)] by auto
  have f: "gp_fit_fails sc2 vals = gp_fit_fails sc vals" for vals
    using gp_at_cong(2) [of sc2 sc, OF assms(1,3,4)] by auto
  show ?thesis
    unfolding prcp_dist_params_eq Let_def g f
    using assms(2) [of "wet_vals df"] by simp
qed

text \<open>
  Claim C5.  For a station-month frame with 10 or fewer positive precipitation samples
  every row has \<open>nan\<close> for \<open>gshape\<close>, \<open>gscale\<close>, \<open>pshape\<close>, \<open>pscale\<close> and
  \<open>pscale_orig\<close>.  For each threshold with 10 or fewer exceedances at or above it the
  three Pareto parameters of its row are \<open>nan\<close>, so a row with a Pareto parameter has
  more than 10 exceedances; and the result does not depend on what the fits would return
  on samples of 10 or fewer values: they are fitted only on more than 10.
\<close>

theorem prcp_few_samples_nan:
  "prcp_dist_params sc df threshs w = Inr (frame, w') \<Longrightarrow>
     map thresh frame = threshs \<and>
     (length (wet_vals df) \<le> 10 \<longrightarrow> (\<forall>row \<in> set frame. all_nan row)) \<and>
     (\<forall>i < length threshs.
        length (exceedances (wet_vals df) (threshs ! i)) \<le> 10 \<longrightarrow> pareto_nan (frame ! i)) \<and>
     ((\<forall>arr t. 10 < length arr \<longrightarrow> genpareto_fit sc2 arr t = genpareto_fit sc arr t) \<and>
      (\<forall>vals. 10 < length vals \<longrightarrow> gamma_fit sc2 vals = gamma_fit sc vals) \<and>
      gamma_cdf sc2 = gamma_cdf sc \<and> gamma_pdf sc2 = gamma_pdf sc \<longrightarrow>
      prcp_dist_params sc2 df threshs w = Inr (frame, w'))"
proof -
  assume run: "prcp_dist_params sc df threshs w = Inr (frame, w')"
  have a: "map thresh frame = threshs"
    using run by (rule prcp_rows_thresh)
  have b: "\<forall>row \<in> set frame. all_nan row" if "length (wet_vals df) \<le> 10"
    using run that by (auto simp: prcp_dist_params_eq Let_def all_nan_row)
  have c: "pareto_nan (frame ! i)"
    if "i < length threshs" "length (exceedances (wet_vals df) (threshs ! i)) \<le> 10" for i
  proof -
    have nan: "pareto_nan (row_of_gp n ng mw gsh gsc t nan4)" for n ng mw gsh gsc t
      by (simp add: nan4_def pareto_nan_row)
    have few: "pareto_nan (row_of_gp n ng mw gsh gsc (threshs ! i)
        (gp_at sc (wet_vals df) gsh0 gsc0 (threshs ! i)))" for n ng mw gsh gsc gsh0 gsc0
      using gp_at_few [OF that(2)] pareto_nan_row by metis
    show ?thesis
      using run that(1)
      by (auto simp: prcp_dist_params_eq Let_def nan few split: if_splits sum.splits)
  qed
  have d: "prcp_dist_params sc2 df threshs w = Inr (frame, w')"
    if "\<forall>arr t. 10 < length arr \<longrightarrow> genpareto_fit sc2 arr t = genpareto_fit sc arr t"
      "\<forall>vals. 10 < length vals \<longrightarrow> gamma_fit sc2 vals = gamma_fit sc vals"
      "gamma_cdf sc2 = gamma_cdf sc" "gamma_pdf sc2 = gamma_pdf sc"
    using prcp_dist_params_cong [of sc2 sc df threshs w] that run by simp
  show ?thesis
    using a b c d by blast
qed

theorem prcp_few_samples_nan_witness:
  "prcp_dist_params example_stats (example_wet_days ''ST3'' 2 3 6) [2, 20] world0 =
     Inr ([nan_row 6 3 (Fin 6) 2, nan_row 6 3 (Fin 6) 20], world0) \<and>
   length (wet_vals (example_wet_days ''ST3'' 2 3 6)) = 3 \<and>
   all_nan (nan_row 6 3 (Fin 6) 2) \<and> all_nan (nan_row 6 3 (Fin 6) 20) \<and>
   prcp_dist_params example_stats (example_wet_days ''ST1'' 1 12 6) [2, 20] world0 =
     Inr ([\<lparr> pr_n = 24, ngamma = 12, mean_wet = Fin 6, ngp = Fin 12, thresh = 2,
              gshape = Fin 2, gscale = Fin 3, pshape = Fin 1, pscale = Fin 2,
              pscale_orig = Fin 4 \<rparr>,
           \<lparr> pr_n = 24, ngamma = 12, mean_wet = Fin 6, ngp = Fin 0, thresh = 20,
              gshape = Fin 2, gscale = Fin 3, pshape = NaN, pscale = NaN,
              pscale_orig = NaN \<rparr>], world0) \<and>
   length (exceedances (wet_vals (example_wet_days ''ST1'' 1 12 6)) 20) = 0 \<and>
   prcp_dist_params example_stats_few (example_wet_days ''ST1'' 1 12 6) [2, 20] world0 =
     prcp_dist_params example_stats (example_wet_days ''ST1'' 1 12 6) [2, 20] world0"
proof -
  let ?f1 = "[\<lparr> pr_n = 24, ngamma = 12, mean_wet = Fin 6, ngp = Fin 12, thresh = 2,
              gshape = Fin 2, gscale = Fin 3, pshape = Fin 1, pscale = Fin 2,
              pscale_orig = Fin 4 \<rparr>,
           \<lparr> pr_n = 24, ngamma = 12, mean_wet = Fin 6, ngp = Fin 0, thresh = 20,
              gshape = Fin 2, gscale = Fin 3, pshape = NaN, pscale = NaN,
              pscale_orig = NaN \<rparr>]"
  have r3: "prcp_dist_params example_stats (example_wet_days ''ST3'' 2 3 6) [2, 20] world0 =
     Inr ([nan_row 6 3 (Fin 6) 2, nan_row 6 3 (Fin 6) 20], world0)"
    by code_simp
  have l3: "length (wet_vals (example_wet_days ''ST3'' 2 3 6)) = 3"
    by code_simp
  have r1: "prcp_dist_params example_stats (example_wet_days ''ST1'' 1 12 6) [2, 20] world0 =
     Inr (?f1, world0)"
    by code_simp
  have l1: "length (exceedances (wet_vals (example_wet_days ''ST1'' 1 12 6)) 20) = 0"
    by code_simp
  have few: "(\<forall>arr t. 10 < length arr \<longrightarrow>
        genpareto_fit example_stats_few arr t = genpareto_fit example_stats arr t) \<and>
      (\<forall>vals. 10 < length vals \<longrightarrow> gamma_fit example_stats_few vals = gamma_fit example_stats vals) \<and>
      gamma_cdf example_stats_few = gamma_cdf example_stats \<and>
      gamma_pdf example_stats_few = gamma_pdf example_stats"
    by (simp add: example_stats_few_def)
  show ?thesis
    using r3 l3 r1 l1 few prcp_few_samples_nan [OF r3]
      prcp_few_samples_nan [OF r1, of example_stats_few]
    by simp
qed

lemma report_fit_error_world:
  "logged (report_fit_error df w) = logged w @ [FitError (index_levels df), DataStored (tmp_next w)]"
  "csv_files (report_fit_error df w) = csv_files w @ [(tmp_next w, df)]"
  "tmp_next (report_fit_error df w) = tmp_next w + 1"
  by (simp_all add: report_fit_error_def Let_def)

lemma remdups_const: "ys \<noteq> [] \<Longrightarrow> set ys \<subseteq> {c} \<Longrightarrow> remdups ys = [c]"
proof (induction ys)
  case Nil
  then show ?case by simp
next
  case (Cons y ys)
  then have y: "y = c" by simp
  show ?case
  proof (cases "ys = []")
    case True
    with y show ?thesis by simp
  next
    case False
    with Cons have ih: "remdups ys = [c]" by simp
    from False Cons.prems(2) have "c \<in> set ys" by (cases ys) auto
    with y ih show ?thesis by simp
  qed
qed

lemma unique_const: "xs \<noteq> [] \<Longrightarrow> set xs \<subseteq> {c} \<Longrightarrow> unique xs = [c]"
  using remdups_const [of "rev xs" c] by (simp add: unique_def)

lemma group_identification:
  assumes "(k, g) \<in> set (groupby station_month_key df)"
  shows "ids (index_levels g) = [fst k]" "months (index_levels g) = [snd k]"
proof -
  from assms have k: "k \<in> station_month_key ` set df"
    and g: "g = filter (\<lambda>r. station_month_key r = k) df"
    by (simp_all add: groupby_mem)
  from k g have ne: "g \<noteq> []" by (auto simp: filter_empty_conv)
  have "set (map d_id g) \<subseteq> {fst k}" "set (map d_month g) \<subseteq> {snd k}"
    using g by (auto simp: station_month_key_def)
  with ne show "ids (index_levels g) = [fst k]" "months (index_levels g) = [snd k]"
    by (simp_all add: index_levels_def unique_const)
qed

lemma apply_groups_total:
  assumes "\<And>g w. \<exists>rows w1. f g w = Inr (rows, w1)"
  shows "\<exists>data w'. apply_groups f gs w = Inr (data, w')"
proof (induction gs arbitrary: w)
  case Nil
  then show ?case by simp
next
  case (Cons kg gs)
  obtain k g where kg: "kg = (k, g)" by (cases kg)
  obtain rows w1 where f: "f g w = Inr (rows, w1)" using assms by blast
  obtain rest w2 where r: "apply_groups f gs w1 = Inr (rest, w2)" using Cons.IH by blast
  show ?case by (simp add: kg f r)
qed

lemma apply_groups_rows:
  assumes "apply_groups f gs w = Inr (data, w')" "(k, g) \<in> set gs"
  shows "\<exists>w0 rows w1. f g w0 = Inr (rows, w1) \<and> (\<forall>r \<in> set rows. (k, r) \<in> set data)"
  using assms
proof (induction gs arbitrary: w data)
  case Nil
  then show ?case by simp
next
  case (Cons kg gs)
  obtain k0 g0 where kg: "kg = (k0, g0)" by (cases kg)
  from Cons.prems(1) kg obtain rows w1 rest where
    f: "f g0 w = Inr (rows, w1)" and r: "apply_groups f gs w1 = Inr (rest, w')"
    and d: "data = map (Pair k0) rows @ rest"
    by (auto split: sum.splits prod.splits)
  show ?case
  proof (cases "(k, g) = (k0, g0)")
    case True
    with f d show ?thesis by auto
  next
    case False
    with Cons.prems(2) kg have "(k, g) \<in> set gs" by auto
    from Cons.IH [OF r this] d show ?thesis by auto
  qed
qed

lemma prcp_dist_params_total: "\<exists>frame w'. prcp_dist_params sc df threshs w = Inr (frame, w')"
  by (simp add: prcp_dist_params_eq Let_def split: sum.splits prod.splits)

lemma prcp_setup_total:
  "\<exists>data w'. prcp_setup_from_scratch sc cfg df w = Inr (data, w')"
  unfolding prcp_setup_from_scratch_def
  by (rule apply_groups_total) (rule prcp_dist_params_total)

lemma prcp_setup_rows:
  assumes "prcp_setup_from_scratch sc cfg df w = Inr (data, w')"
    and "k \<in> station_month_key ` set df" "t \<in> set (prcp_threshs cfg)"
  shows "\<exists>row. (k, row) \<in> set data \<and> thresh row = t"
proof -
  from assms(2) have "(k, filter (\<lambda>r. station_month_key r = k) df)
      \<in> set (groupby station_month_key df)"
    by (simp add: groupby_mem)
  from apply_groups_rows [OF assms(1) [unfolded prcp_setup_from_scratch_def] this]
  obtain w0 rows w1 where
    f: "prcp_dist_params sc (filter (\<lambda>r. station_month_key r = k) df) (prcp_threshs cfg) w0 =
        Inr (rows, w1)"
    and r: "\<forall>r \<in> set rows. (k, r) \<in> set data"
    by blast
  from prcp_rows_thresh [OF f] assms(3) have "t \<in> thresh ` set rows"
    by (metis list.set_map)
  with r show ?thesis by auto
qed

text \<open>
  Claim C6.  Whatever the two fits do, \<open>prcp_dist_params\<close> returns a frame with a row
  for every threshold and raises nothing.  When the Gamma fit raises, the exception is
  caught: the world gains the critical message with the identification of the frame, the
  frame in a new temporary file and the message naming the file, and every parameter of
  every row is \<open>nan\<close>.  When the Gamma fit returns, every threshold is processed: the
  world gains one such report for each threshold whose Pareto fit raises, the Pareto
  parameters of those thresholds are \<open>nan\<close>, and the entries of every threshold are those of
  its own fit.  The identification of a station-month group holds its station and its
  month.  The run over all groups returns a row for every group and threshold.
\<close>

theorem prcp_fit_failure_contained:
  "(\<exists>frame w'. prcp_dist_params sc df threshs w = Inr (frame, w') \<and>
      map thresh frame = threshs \<and>
      (10 < length (wet_vals df) \<and> isl (gamma_fit sc (wet_vals df)) \<longrightarrow>
         w' = report_fit_error df w \<and> (\<forall>row \<in> set frame. all_nan row)) \<and>
      (\<forall>gsh gsc. 10 < length (wet_vals df) \<and> gamma_fit sc (wet_vals df) = Inr (gsh, gsc) \<longrightarrow>
         w' = (report_fit_error df ^^
                 length (filter (gp_fit_fails sc (wet_vals df)) threshs)) w \<and>
         (\<forall>i < length threshs.
            (gp_fit_fails sc (wet_vals df) (threshs ! i) \<longrightarrow> pareto_nan (frame ! i)) \<and>
            (ngp (frame ! i), pshape (frame ! i), pscale (frame ! i), pscale_orig (frame ! i)) =
              gp_at sc (wet_vals df) gsh gsc (threshs ! i)))) \<and>
   logged (report_fit_error df w) =
     logged w @ [FitError (index_levels df), DataStored (tmp_next w)] \<and>
   csv_files (report_fit_error df w) = csv_files w @ [(tmp_next w, df)] \<and>
   ((k, g) \<in> set (groupby station_month_key df) \<longrightarrow>
      ids (index_levels g) = [fst k] \<and> months (index_levels g) = [snd k]) \<and>
   (\<exists>data w'. prcp_setup_from_scratch sc cfg df w = Inr (data, w') \<and>
      (\<forall>k \<in> station_month_key ` set df. \<forall>t \<in> set (prcp_threshs cfg).
         \<exists>row. (k, row) \<in> set data \<and> thresh row = t))"
proof -
  obtain frame w' where run: "prcp_dist_params sc df threshs w = Inr (frame, w')"
    using prcp_dist_params_total by blast
  have t: "map thresh frame = threshs"
    using run by (rule prcp_rows_thresh)
  have gam: "w' = report_fit_error df w \<and> (\<forall>row \<in> set frame. all_nan row)"
    if "10 < length (wet_vals df) \<and> isl (gamma_fit sc (wet_vals df))"
    using run that by (auto simp: prcp_dist_params_eq Let_def all_nan_row isl_def)
  have gp: "w' = (report_fit_error df ^^
                 length (filter (gp_fit_fails sc (wet_vals df)) threshs)) w \<and>
         (\<forall>i < length threshs.
            (gp_fit_fails sc (wet_vals df) (threshs ! i) \<longrightarrow> pareto_nan (frame ! i)) \<and>
            (ngp (frame ! i), pshape (frame ! i), pscale (frame ! i), pscale_orig (frame ! i)) =
              gp_at sc (wet_vals df) gsh gsc (threshs ! i))"
    if "10 < length (wet_vals df) \<and> gamma_fit sc (wet_vals df) = Inr (gsh, gsc)" for gsh gsc
  proof -
    let ?n = "length (dropna (map prcp df)) * length threshs"
    let ?row = "\<lambda>t. row_of_gp ?n (length (wet_vals df)) (np_mean (map Fin (wet_vals df)))
        gsh gsc t (gp_at sc (wet_vals df) gsh gsc t)"
    from run that have fr: "frame = map ?row threshs"
      and w: "w' = (report_fit_error df ^^
                 length (filter (gp_fit_fails sc (wet_vals df)) threshs)) w"
      by (simp_all add: prcp_dist_params_eq Let_def)
    have "pareto_nan (frame ! i)"
      if "i < length threshs" "gp_fit_fails sc (wet_vals df) (threshs ! i)" for i
      using gp_at_fails [OF that(2), of gsh gsc] that(1) pareto_nan_row
      by (auto simp: fr)
    moreover have "(ngp (frame ! i), pshape (frame ! i), pscale (frame ! i),
        pscale_orig (frame ! i)) = gp_at sc (wet_vals df) gsh gsc (threshs ! i)"
      if "i < length threshs" for i
      using that by (simp add: fr row_of_gp_simps)
    ultimately show ?thesis using w by blast
  qed
  have one: "\<exists>frame w'. prcp_dist_params sc df threshs w = Inr (frame, w') \<and>
      map thresh frame = threshs \<and>
      (10 < length (wet_vals df) \<and> isl (gamma_fit sc (wet_vals df)) \<longrightarrow>
         w' = report_fit_error df w \<and> (\<forall>row \<in> set frame. all_nan row)) \<and>
      (\<forall>gsh gsc. 10 < length (wet_vals df) \<and> gamma_fit sc (wet_vals df) = Inr (gsh, gsc) \<longrightarrow>
         w' = (report_fit_error df ^^
                 length (filter (gp_fit_fails sc (wet_vals df)) threshs)) w \<and>
         (\<forall>i < length threshs.
            (gp_fit_fails sc (wet_vals df) (threshs ! i) \<longrightarrow> pareto_nan (frame ! i)) \<and>
            (ngp (frame ! i), pshape (frame ! i), pscale (frame ! i), pscale_orig (frame ! i)) =
              gp_at sc (wet_vals df) gsh gsc (threshs ! i)))"
    using run t gam gp by blast
  obtain data w2 where whole: "prcp_setup_from_scratch sc cfg df w = Inr (data, w2)"
    using prcp_setup_total by blast
  have all: "\<exists>data w'. prcp_setup_from_scratch sc cfg df w = Inr (data, w') \<and>
      (\<forall>k \<in> station_month_key ` set df. \<forall>t \<in> set (prcp_threshs cfg).
         \<exists>row. (k, row) \<in> set data \<and> thresh row = t)"
    using whole prcp_setup_rows [OF whole] by blast
  show ?thesis
    using one all report_fit_error_world(1,2) [of df w] group_identification [of k g df]
    by (intro conjI impI) assumption+
qed

theorem prcp_fit_failure_contained_witness:
  "prcp_dist_params example_stats (example_wet_days ''ST2'' 1 11 13) [2, 20, 5] world0 =
     Inr ([nan_row 33 11 (Fin 13) 2, nan_row 33 11 (Fin 13) 20, nan_row 33 11 (Fin 13) 5],
          report_fit_error (example_wet_days ''ST2'' 1 11 13) world0) \<and>
   isl (gamma_fit example_stats (wet_vals (example_wet_days ''ST2'' 1 11 13))) \<and>
   (\<exists>frame. prcp_dist_params example_stats (example_wet_days ''ST1'' 1 12 6) [2, 20, 5] world0 =
       Inr (frame, report_fit_error (example_wet_days ''ST1'' 1 12 6) world0) \<and>
     pareto_nan (frame ! 2) \<and> pshape (frame ! 0) = Fin 1 \<and> pscale (frame ! 0) = Fin 2 \<and>
     pscale_orig (frame ! 0) = Fin 4) \<and>
   gamma_fit example_stats (wet_vals (example_wet_days ''ST1'' 1 12 6)) = Inr (Fin 2, Fin 3) \<and>
   gp_fit_fails example_stats (wet_vals (example_wet_days ''ST1'' 1 12 6)) 5 \<and>
   logged (report_fit_error (example_wet_days ''ST1'' 1 12 6) world0) =
     [FitError \<lparr>ids = [''ST1''], years = [1990], months = [1],
                days = [1, 2, 3, 4, 5, 6, 7, 8, 9, 10, 11, 12]\<rparr>, DataStored 0] \<and>
   csv_files (report_fit_error (example_wet_days ''ST1'' 1 12 6) world0) =
     [(0, example_wet_days ''ST1'' 1 12 6)] \<and>
   ((''ST2'', 1), example_wet_days ''ST2'' 1 11 13)
      \<in> set (groupby station_month_key example_prcp_days) \<and>
   ids (index_levels (example_wet_days ''ST2'' 1 11 13)) = [''ST2''] \<and>
   months (index_levels (example_wet_days ''ST2'' 1 11 13)) = [1] \<and>
   (\<exists>data w'. prcp_setup_from_scratch example_stats example_config example_prcp_days world0 =
       Inr (data, w') \<and>
     (\<exists>row. ((''ST3'', 2), row) \<in> set data \<and> thresh row = 5))"
proof -
  let ?d1 = "example_wet_days ''ST1'' 1 12 6"
  let ?d2 = "example_wet_days ''ST2'' 1 11 13"
  have r2: "prcp_dist_params example_stats ?d2 [2, 20, 5] world0 =
     Inr ([nan_row 33 11 (Fin 13) 2, nan_row 33 11 (Fin 13) 20, nan_row 33 11 (Fin 13) 5],
          report_fit_error ?d2 world0)"
    by code_simp
  have g2: "10 < length (wet_vals ?d2) \<and> isl (gamma_fit example_stats (wet_vals ?d2))"
    by code_simp
  have g1: "10 < length (wet_vals ?d1) \<and>
      gamma_fit example_stats (wet_vals ?d1) = Inr (Fin 2, Fin 3)"
    by code_simp
  have f1: "gp_fit_fails example_stats (wet_vals ?d1) 5"
    by code_simp
  have n1: "length (filter (gp_fit_fails example_stats (wet_vals ?d1)) [2, 20, 5]) = 1"
    by code_simp
  have a1: "gp_at example_stats (wet_vals ?d1) (Fin 2) (Fin 3) 2 = (Fin 12, Fin 1, Fin 2, Fin 4)"
    by code_simp
  have grp: "((''ST2'', 1), ?d2) \<in> set (groupby station_month_key example_prcp_days)"
    by code_simp
  have key: "(''ST3'', 2) \<in> station_month_key ` set example_prcp_days"
  proof -
    have "(''ST3'', 2) \<in> set (map station_month_key example_prcp_days)" by code_simp
    then show ?thesis by simp
  qed
  have thr: "5 \<in> set (prcp_threshs example_config)"
    by (simp add: prcp_threshs_def example_config_def)
  note c1 = prcp_fit_failure_contained
    [of example_stats ?d1 "[2, 20, 5]" world0 "(''ST2'', 1)" ?d2 example_config]
  note c2 = prcp_fit_failure_contained
    [of example_stats example_prcp_days "[2, 20, 5]" world0 "(''ST2'', 1)" ?d2 example_config]
  from c1 obtain frame w' where
    run: "prcp_dist_params example_stats ?d1 [2, 20, 5] world0 = Inr (frame, w')"
    and gp: "\<forall>gsh gsc. 10 < length (wet_vals ?d1) \<and>
        gamma_fit example_stats (wet_vals ?d1) = Inr (gsh, gsc) \<longrightarrow>
         w' = (report_fit_error ?d1 ^^
                 length (filter (gp_fit_fails example_stats (wet_vals ?d1)) [2, 20, 5])) world0 \<and>
         (\<forall>i < length [2, 20, 5 :: real].
            (gp_fit_fails example_stats (wet_vals ?d1) ([2, 20, 5] ! i) \<longrightarrow>
               pareto_nan (frame ! i)) \<and>
            (ngp (frame ! i), pshape (frame ! i), pscale (frame ! i), pscale_orig (frame ! i)) =
              gp_at example_stats (wet_vals ?d1) gsh gsc ([2, 20, 5] ! i))"
    by blast
  from gp g1 have w': "w' = (report_fit_error ?d1 ^^
        length (filter (gp_fit_fails example_stats (wet_vals ?d1)) [2, 20, 5])) world0"
    and rows: "\<forall>i < length [2, 20, 5 :: real].
            (gp_fit_fails example_stats (wet_vals ?d1) ([2, 20, 5] ! i) \<longrightarrow>
               pareto_nan (frame ! i)) \<and>
            (ngp (frame ! i), pshape (frame ! i), pscale (frame ! i), pscale_orig (frame ! i)) =
              gp_at example_stats (wet_vals ?d1) (Fin 2) (Fin 3) ([2, 20, 5] ! i)"
    by blast+
  from w' n1 have w1: "w' = report_fit_error ?d1 world0" by simp
  from rows [rule_format, of 2] f1 have p2: "pareto_nan (frame ! 2)" by simp
  from rows [rule_format, of 0] a1 have p0: "pshape (frame ! 0) = Fin 1 \<and>
      pscale (frame ! 0) = Fin 2 \<and> pscale_orig (frame ! 0) = Fin 4" by simp
  have one: "\<exists>frame. prcp_dist_params example_stats ?d1 [2, 20, 5] world0 =
       Inr (frame, report_fit_error ?d1 world0) \<and>
     pareto_nan (frame ! 2) \<and> pshape (frame ! 0) = Fin 1 \<and> pscale (frame ! 0) = Fin 2 \<and>
     pscale_orig (frame ! 0) = Fin 4"
    using run w1 p2 p0 by blast
  have lg: "logged (report_fit_error ?d1 world0) =
     [FitError \<lparr>ids = [''ST1''], years = [1990], months = [1],
                days = [1, 2, 3, 4, 5, 6, 7, 8, 9, 10, 11, 12]\<rparr>, DataStored 0]"
    by code_simp
  have cs: "csv_files (report_fit_error ?d1 world0) = [(0, ?d1)]"
    using c1 by (simp add: world0_def)
  have idn: "ids (index_levels ?d2) = [''ST2''] \<and> months (index_levels ?d2) = [1]"
    using c2 grp by simp
  have all: "\<exists>data w'. prcp_setup_from_scratch example_stats example_config example_prcp_days
        world0 = Inr (data, w') \<and>
     (\<exists>row. ((''ST3'', 2), row) \<in> set data \<and> thresh row = 5)"
    using c2 key thr by blast
  show ?thesis
    using r2 g2 one g1 f1 lg cs grp idn all by simp
qed

section \<open>The collected namelist\<close>













section \<open>The task chain of the cross correlation\<close>

lemma resolve_corr:
  "resolve registry [''corr''] = Inr (corr_prerequisites @ [''corr''])"
  by code_simp

lemma requires_of:
  "(a, b) \<in> requires_rel reg \<longleftrightarrow>
     list_ex (\<lambda>t. t_name t = a \<and> b \<in> set (setup_requires t)) reg"
  by (auto simp: requires_rel_def list_ex_iff)

lemma requires_edges:
  "(''corr'', ''yearly_cdaily_cloud'') \<in> requires_rel registry"
  "(''yearly_cdaily_cloud'', ''cdaily_cloud'') \<in> requires_rel registry"
  "(''yearly_cdaily_cloud'', ''cmonthly_cloud'') \<in> requires_rel registry"
  "(''cdaily_cloud'', ''daily_cloud'') \<in> requires_rel registry"
  "(''cmonthly_cloud'', ''monthly_cloud'') \<in> requires_rel registry"
  "(''daily_cloud'', ''hourly_cloud'') \<in> requires_rel registry"
  unfolding requires_of by code_simp+

lemma requires_closed_exec:
  "list_all (\<lambda>t. t_name t \<in> set (corr_prerequisites @ [''corr'']) \<longrightarrow>
      list_all (\<lambda>b. b \<in> set (corr_prerequisites @ [''corr''])) (setup_requires t)) registry"
  by code_simp

lemma requires_closed:
  "a \<in> set (corr_prerequisites @ [''corr'']) \<Longrightarrow> (a, b) \<in> requires_rel registry \<Longrightarrow>
     b \<in> set (corr_prerequisites @ [''corr''])"
  using requires_closed_exec
  unfolding requires_rel_def list_all_iff by blast

lemma corr_reachable:
  "(requires_rel registry)\<^sup>* `` {''corr''} = set (corr_prerequisites @ [''corr''])"
proof (intro equalityI subsetI)
  fix b
  assume "b \<in> (requires_rel registry)\<^sup>* `` {''corr''}"
  then have "(''corr'', b) \<in> (requires_rel registry)\<^sup>*" by simp
  then show "b \<in> set (corr_prerequisites @ [''corr''])"
  proof (induction rule: rtrancl_induct)
    case base
    then show ?case by simp
  next
    case (step y z)
    from requires_closed [OF step.IH step.hyps(2)] show ?case .
  qed
next
  fix b
  assume b: "b \<in> set (corr_prerequisites @ [''corr''])"
  note e = requires_edges
  have r1: "(''corr'', ''yearly_cdaily_cloud'') \<in> (requires_rel registry)\<^sup>*"
    using e(1) by blast
  have r2: "(''corr'', ''cdaily_cloud'') \<in> (requires_rel registry)\<^sup>*"
    using r1 e(2) by (rule rtrancl_into_rtrancl)
  have r3: "(''corr'', ''cmonthly_cloud'') \<in> (requires_rel registry)\<^sup>*"
    using r1 e(3) by (rule rtrancl_into_rtrancl)
  have r4: "(''corr'', ''daily_cloud'') \<in> (requires_rel registry)\<^sup>*"
    using r2 e(4) by (rule rtrancl_into_rtrancl)
  have r5: "(''corr'', ''monthly_cloud'') \<in> (requires_rel registry)\<^sup>*"
    using r3 e(5) by (rule rtrancl_into_rtrancl)
  have r6: "(''corr'', ''hourly_cloud'') \<in> (requires_rel registry)\<^sup>*"
    using r4 e(6) by (rule rtrancl_into_rtrancl)
  from b have "b = ''hourly_cloud'' \<or> b = ''daily_cloud'' \<or> b = ''monthly_cloud'' \<or>
      b = ''cdaily_cloud'' \<or> b = ''cmonthly_cloud'' \<or> b = ''yearly_cdaily_cloud'' \<or> b = ''corr''"
    by (simp add: corr_prerequisites_def)
  with r1 r2 r3 r4 r5 r6 show "b \<in> (requires_rel registry)\<^sup>* `` {''corr''}"
    by auto
qed

text \<open>
  Claim C3, as amended.  By the \<open>setup_requires\<close> declarations of the source the
  tasks reachable from the cross-correlation task \<open>corr\<close> are \<open>hourly_cloud\<close>,
  \<open>daily_cloud\<close>, \<open>monthly_cloud\<close>, \<open>cdaily_cloud\<close>, \<open>cmonthly_cloud\<close>,
  \<open>yearly_cdaily_cloud\<close> and \<open>corr\<close> itself.  Requesting \<open>corr\<close> resolves to
  exactly these, each once, every task after all of its declared prerequisites.
\<close>

theorem corr_chain:
  "resolve registry [''corr''] = Inr (corr_prerequisites @ [''corr'']) \<and>
   (requires_rel registry)\<^sup>* `` {''corr''} = set (corr_prerequisites @ [''corr'']) \<and>
   distinct (corr_prerequisites @ [''corr'']) \<and>
   in_order registry [] (corr_prerequisites @ [''corr''])"
proof -
  have d: "distinct (corr_prerequisites @ [''corr''])" by code_simp
  have o: "in_order registry [] (corr_prerequisites @ [''corr''])" by code_simp
  from resolve_corr corr_reachable d o show ?thesis
    by (intro conjI)
qed

text \<open>
  The tasks \<open>day\<close>, \<open>month\<close>, \<open>cday\<close> and \<open>yearly_cmonthly_cloud\<close> of the
  chain in the specification are no prerequisites of \<open>corr\<close>: the resolved sequence
  does not hold them.
\<close>

theorem corr_chain_counterexample:
  "(\<exists>order. resolve registry [''corr''] = Inr order \<and>
      ''day'' \<notin> set order \<and> ''month'' \<notin> set order \<and> ''cday'' \<notin> set order \<and>
      ''yearly_cmonthly_cloud'' \<notin> set order \<and>
      set order \<noteq> set spec_corr_chain \<and> set order \<noteq> set (spec_corr_chain @ [''corr''])) \<and>
   ''day'' \<in> set spec_corr_chain \<and>
   ''day'' \<notin> (requires_rel registry)\<^sup>* `` {''corr''}"
proof -
  let ?S = "corr_prerequisites @ [''corr'']"
  have a1: "''day'' \<notin> set ?S" by code_simp
  have a2: "''month'' \<notin> set ?S" by code_simp
  have a3: "''cday'' \<notin> set ?S" by code_simp
  have a4: "''yearly_cmonthly_cloud'' \<notin> set ?S" by code_simp
  have b: "''day'' \<in> set spec_corr_chain" by code_simp
  have b': "''day'' \<in> set (spec_corr_chain @ [''corr''])" using b by simp
  have c1: "set ?S \<noteq> set spec_corr_chain"
    using a1 b by (metis)
  have c2: "set ?S \<noteq> set (spec_corr_chain @ [''corr''])"
    using a1 b' by (metis)
  have e: "\<exists>order. resolve registry [''corr''] = Inr order \<and>
      ''day'' \<notin> set order \<and> ''month'' \<notin> set order \<and> ''cday'' \<notin> set order \<and>
      ''yearly_cmonthly_cloud'' \<notin> set order \<and>
      set order \<noteq> set spec_corr_chain \<and> set order \<noteq> set (spec_corr_chain @ [''corr''])"
    by (rule exI [of _ ?S]) (intro conjI resolve_corr a1 a2 a3 a4 c1 c2)
  have r: "''day'' \<notin> (requires_rel registry)\<^sup>* `` {''corr''}"
    unfolding corr_reachable by (rule a1)
  from e b r show ?thesis by (intro conjI)
qed

section \<open>The matrices of the autoregressive process\<close>

lemma transpose3:
  "transpose [[a, b, c], [d, e, f], [g, h, i]] = [[a, d, g], [b, e, h], [c, f, i :: real]]"
  by simp

lemma dot3:
  "dot [[a, b, c], [d, e, f], [g, h, i]] [[a', b', c'], [d', e', f'], [g', h', i']] =
     [[a * a' + b * d' + c * g', a * b' + b * e' + c * h', a * c' + b * f' + c * i'],
      [d * a' + e * d' + f * g', d * b' + e * e' + f * h', d * c' + e * f' + f * i'],
      [g * a' + h * d' + i * g', g * b' + h * e' + i * h', g * c' + h * f' + i * i']]"
  by (simp add: dot_def)

lemma mat_sub3:
  "mat_sub [[a, b, c], [d, e, f], [g, h, i]] [[a', b', c'], [d', e', f'], [g', h', i']] =
     [[a - a', b - b', c - c'], [d - d', e - e', f - f'], [g - g', h - h', i - i']]"
  by (simp add: mat_sub_def)

lemma lower_sym3:
  "lower_sym [[a, b, c], [d, e, f], [g, h, i]] = [[a, d, g], [d, e, h], [g, h, i]]"
  by (simp add: lower_sym_def upt_rec [of 0] upt_rec [of 1] upt_rec [of 2]
      upt_rec [of "Suc 0"] upt_rec [of "Suc (Suc 0)"] numeral_3_eq_3 numeral_2_eq_2)

lemma lower_triangular3:
  "lower_triangular [[a, b, c], [d, e, f], [g, h, i]] \<longleftrightarrow> b = 0 \<and> c = 0 \<and> f = 0"
  by (simp add: lower_triangular_def upt_rec [of 0] upt_rec [of 1] upt_rec [of 2]
      upt_rec [of "Suc 0"] upt_rec [of "Suc (Suc 0)"] numeral_3_eq_3 numeral_2_eq_2)

lemma is_mat3I: "is_mat3 [[a, b, c], [d, e, f], [g, h, i]]"
  by (simp add: is_mat3_def)

lemma is_mat3E:
  assumes "is_mat3 m"
  obtains a b c d e f g h i where "m = [[a, b, c], [d, e, f], [g, h, i]]"
proof -
  have row: "\<exists>a b c. r = [a, b, c]" if "length r = 3" for r :: "real list"
    using that by (auto simp: length_Suc_conv numeral_3_eq_3)
  from assms obtain r1 r2 r3 where m: "m = [r1, r2, r3]"
    by (auto simp: is_mat3_def length_Suc_conv numeral_3_eq_3)
  with assms have "length r1 = 3" "length r2 = 3" "length r3 = 3"
    by (simp_all add: is_mat3_def)
  with row [of r1] row [of r2] row [of r3] m that show ?thesis by blast
qed

lemma is_mat3_ops:
  assumes "is_mat3 x" "is_mat3 y"
  shows "is_mat3 (dot x y)" "is_mat3 (mat_sub x y)" "is_mat3 (transpose x)"
proof -
  from assms(1) obtain a b c d e f g h i where x: "x = [[a, b, c], [d, e, f], [g, h, i]]"
    by (rule is_mat3E)
  from assms(2) obtain a1 b1 c1 d1 e1 f1 g1 h1 i1 where
    y: "y = [[a1, b1, c1], [d1, e1, f1], [g1, h1, i1]]"
    by (rule is_mat3E)
  show "is_mat3 (dot x y)" unfolding x y dot3 by (rule is_mat3I)
  show "is_mat3 (mat_sub x y)" unfolding x y mat_sub3 by (rule is_mat3I)
  show "is_mat3 (transpose x)" unfolding x transpose3 by (rule is_mat3I)
qed

lemma dot_assoc3:
  assumes "is_mat3 x" "is_mat3 y" "is_mat3 z"
  shows "dot (dot x y) z = dot x (dot y z)"
proof -
  from assms(1) obtain a b c d e f g h i where x: "x = [[a, b, c], [d, e, f], [g, h, i]]"
    by (rule is_mat3E)
  from assms(2) obtain a1 b1 c1 d1 e1 f1 g1 h1 i1 where
    y: "y = [[a1, b1, c1], [d1, e1, f1], [g1, h1, i1]]"
    by (rule is_mat3E)
  from assms(3) obtain a2 b2 c2 d2 e2 f2 g2 h2 i2 where
    z: "z = [[a2, b2, c2], [d2, e2, f2], [g2, h2, i2]]"
    by (rule is_mat3E)
  show ?thesis
    unfolding x y z dot3 by (simp add: algebra_simps)
qed

lemma dot_identity3:
  assumes "is_mat3 x"
  shows "dot x identity3 = x" "dot identity3 x = x"
proof -
  from assms obtain a b c d e f g h i where x: "x = [[a, b, c], [d, e, f], [g, h, i]]"
    by (rule is_mat3E)
  show "dot x identity3 = x" "dot identity3 x = x"
    unfolding x identity3_def dot3 by simp_all
qed

lemma transpose_dot3:
  assumes "is_mat3 x" "is_mat3 y"
  shows "transpose (dot x y) = dot (transpose y) (transpose x)"
proof -
  from assms(1) obtain a b c d e f g h i where x: "x = [[a, b, c], [d, e, f], [g, h, i]]"
    by (rule is_mat3E)
  from assms(2) obtain a1 b1 c1 d1 e1 f1 g1 h1 i1 where
    y: "y = [[a1, b1, c1], [d1, e1, f1], [g1, h1, i1]]"
    by (rule is_mat3E)
  show ?thesis
    unfolding x y dot3 transpose3 by (simp add: algebra_simps)
qed

lemma transpose_sub3:
  assumes "is_mat3 x" "is_mat3 y"
  shows "transpose (mat_sub x y) = mat_sub (transpose x) (transpose y)"
proof -
  from assms(1) obtain a b c d e f g h i where x: "x = [[a, b, c], [d, e, f], [g, h, i]]"
    by (rule is_mat3E)
  from assms(2) obtain a1 b1 c1 d1 e1 f1 g1 h1 i1 where
    y: "y = [[a1, b1, c1], [d1, e1, f1], [g1, h1, i1]]"
    by (rule is_mat3E)
  show ?thesis
    unfolding x y mat_sub3 transpose3 by simp
qed

lemma transpose_transpose3:
  assumes "is_mat3 x"
  shows "transpose (transpose x) = x"
proof -
  from assms obtain a b c d e f g h i where x: "x = [[a, b, c], [d, e, f], [g, h, i]]"
    by (rule is_mat3E)
  show ?thesis unfolding x transpose3 by simp
qed

lemma transpose_identity3: "transpose identity3 = identity3"
  unfolding identity3_def transpose3 by simp

lemma lower_sym_symmetric:
  assumes "is_mat3 x" "symmetric x"
  shows "lower_sym x = x"
proof -
  from assms(1) obtain a b c d e f g h i where x: "x = [[a, b, c], [d, e, f], [g, h, i]]"
    by (rule is_mat3E)
  from assms(2) have "[[a, d, g], [b, e, h], [c, f, i]] = [[a, b, c], [d, e, f], [g, h, i]]"
    unfolding x symmetric_def transpose3 .
  then have "d = b \<and> g = c \<and> h = f"
    by (metis list.inject)
  then show ?thesis
    unfolding x lower_sym3 by simp
qed

lemma upper_triangular_transpose:
  assumes "is_mat3 l" "lower_triangular l"
  shows "lower_triangular (transpose (transpose l))" "\<exists>a b c e f i. transpose l = [[a, b, c], [0, e, f], [0, 0, i]]"
proof -
  from assms(1) obtain a b c d e f g h i where l: "l = [[a, b, c], [d, e, f], [g, h, i]]"
    by (rule is_mat3E)
  from assms(2) show "lower_triangular (transpose (transpose l))"
    unfolding l transpose3 by simp
  from assms(2) show "\<exists>a b c e f i. transpose l = [[a, b, c], [0, e, f], [0, 0, i]]"
    unfolding l transpose3 lower_triangular3 by simp
qed

lemma inverse_symmetric:
  assumes "is_mat3 m" "is_mat3 mi" "symmetric m" "dot m mi = identity3" "dot mi m = identity3"
  shows "symmetric mi"
proof -
  have t: "is_mat3 (transpose mi)" using assms(2) by (rule is_mat3_ops(3) [OF _ assms(2)])
  have "transpose mi = dot (transpose mi) identity3"
    using t by (simp add: dot_identity3)
  also have "\<dots> = dot (transpose mi) (dot m mi)"
    by (simp only: assms(4))
  also have "\<dots> = dot (dot (transpose mi) m) mi"
    using t assms(1,2) by (simp only: dot_assoc3)
  also have "dot (transpose mi) m = dot (transpose mi) (transpose m)"
    using assms(3) by (simp add: symmetric_def)
  also have "\<dots> = transpose (dot m mi)"
    using assms(1,2) by (simp only: transpose_dot3)
  also have "\<dots> = identity3"
    by (simp only: assms(4) transpose_identity3)
  also have "dot identity3 mi = mi"
    using assms(2) by (rule dot_identity3(2))
  finally show ?thesis by (simp add: symmetric_def)
qed

lemma covariance_symmetric:
  assumes "is_mat3 m0" "is_mat3 m1" "is_mat3 mi" "symmetric m0" "symmetric mi"
  shows "symmetric (mat_sub m0 (dot (dot m1 mi) (transpose m1)))"
proof -
  have t1: "is_mat3 (transpose m1)" by (rule is_mat3_ops(3) [OF assms(2) assms(2)])
  have d1: "is_mat3 (dot m1 mi)" by (rule is_mat3_ops(1) [OF assms(2) assms(3)])
  have d2: "is_mat3 (dot (dot m1 mi) (transpose m1))" by (rule is_mat3_ops(1) [OF d1 t1])
  have "transpose (dot (dot m1 mi) (transpose m1)) =
      dot (transpose (transpose m1)) (transpose (dot m1 mi))"
    by (rule transpose_dot3 [OF d1 t1])
  also have "\<dots> = dot m1 (dot (transpose mi) (transpose m1))"
    by (simp only: transpose_transpose3 [OF assms(2)] transpose_dot3 [OF assms(2,3)])
  also have "\<dots> = dot m1 (dot mi (transpose m1))"
    using assms(5) by (simp add: symmetric_def)
  also have "\<dots> = dot (dot m1 mi) (transpose m1)"
    by (simp only: dot_assoc3 [OF assms(2,3) t1])
  finally have "transpose (dot (dot m1 mi) (transpose m1)) = dot (dot m1 mi) (transpose m1)" .
  then show ?thesis
    using assms(4) by (simp add: symmetric_def transpose_sub3 [OF assms(1) d2])
qed

lemma exact_inv_contract: "inv_contract exact_linalg m"
proof (cases "is_mat3 m")
  case False
  have "exact_inv m = Inl LinAlgError"
  proof (cases "\<exists>a b c d e f g h i. m = [[a, b, c], [d, e, f], [g, h, i]]")
    case True
    with False show ?thesis by (auto simp: is_mat3_def)
  next
    case F: False
    then show ?thesis
      unfolding exact_inv_def
      by (auto split: list.splits)
  qed
  then show ?thesis by (simp add: inv_contract_def exact_linalg_def)
next
  case True
  then obtain a b c d e f g h i where m: "m = [[a, b, c], [d, e, f], [g, h, i]]"
    by (rule is_mat3E)
  define D where "D = a * (e * i - f * h) - b * (d * i - f * g) + c * (d * h - e * g)"
  show ?thesis
  proof (cases "D = 0")
    case True
    then show ?thesis
      by (simp add: inv_contract_def exact_linalg_def exact_inv_def m D_def Let_def)
  next
    case False
    have inv: "exact_inv m =
        Inr [[(e * i - f * h) / D, (c * h - b * i) / D, (b * f - c * e) / D],
             [(f * g - d * i) / D, (a * i - c * g) / D, (c * d - a * f) / D],
             [(d * h - e * g) / D, (b * g - a * h) / D, (a * e - b * d) / D]]"
      using False by (simp add: exact_inv_def m D_def Let_def)
    have r: "x / D * y = (x * y) / D" "y * (x / D) = (y * x) / D" for x y
      by simp_all
    have one: "p = D \<Longrightarrow> p / D = 1" and zero: "p = 0 \<Longrightarrow> p / D = 0" for p
      using False by simp_all
    let ?mi = "[[(e * i - f * h) / D, (c * h - b * i) / D, (b * f - c * e) / D],
             [(f * g - d * i) / D, (a * i - c * g) / D, (c * d - a * f) / D],
             [(d * h - e * g) / D, (b * g - a * h) / D, (a * e - b * d) / D]]"
    have i1: "is_mat3 ?mi" by (rule is_mat3I)
    have i2: "dot m ?mi = identity3"
      unfolding m dot3 identity3_def
      apply (simp only: r add_divide_distrib [symmetric] list.inject)
      apply (intro conjI one zero refl; simp add: D_def algebra_simps)
      done
    have i3: "dot ?mi m = identity3"
      unfolding m dot3 identity3_def
      apply (simp only: r add_divide_distrib [symmetric] list.inject)
      apply (intro conjI one zero refl; simp add: D_def algebra_simps)
      done
    show ?thesis
      by (simp only: inv_contract_def exact_linalg_def linalg.simps inv sum.case i1 i2 i3)
  qed
qed

lemma exact_cholesky_contract: "cholesky_contract exact_linalg m"
proof (cases "exact_cholesky m")
  case (Inl err)
  then show ?thesis by (simp add: cholesky_contract_def exact_linalg_def)
next
  case (Inr l)
  then have l: "exact_cholesky m = Inr l" .
  then obtain a b c d e f g h i where m: "m = [[a, b, c], [d, e, f], [g, h, i]]"
    unfolding exact_cholesky_def by (auto split: list.splits)
  define l11 where "l11 = sqrt a"
  define l21 where "l21 = d / l11"
  define l31 where "l31 = g / l11"
  define l22 where "l22 = sqrt (e - l21 * l21)"
  define l32 where "l32 = (h - l31 * l21) / l22"
  define l33 where "l33 = sqrt (i - l31 * l31 - l32 * l32)"
  have step: "exact_cholesky m =
      (if a \<le> 0 then Inl LinAlgError
       else if e - l21 * l21 \<le> 0 then Inl LinAlgError
       else if i - l31 * l31 - l32 * l32 \<le> 0 then Inl LinAlgError
       else Inr [[l11, 0, 0], [l21, l22, 0], [l31, l32, l33]])"
    by (simp add: exact_cholesky_def m Let_def l11_def l21_def l31_def l22_def l32_def l33_def)
  from l step have pos: "0 < a" "0 < e - l21 * l21" "0 < i - l31 * l31 - l32 * l32"
    and lv: "l = [[l11, 0, 0], [l21, l22, 0], [l31, l32, l33]]"
    by (auto split: if_splits)
  have s1: "l11 * l11 = a" using pos(1) by (simp add: l11_def)
  have n1: "l11 \<noteq> 0" using pos(1) by (simp add: l11_def)
  have s2: "l22 * l22 = e - l21 * l21" using pos(2) by (simp add: l22_def)
  have n2: "l22 \<noteq> 0" using pos(2) by (simp add: l22_def)
  have s3: "l33 * l33 = i - l31 * l31 - l32 * l32" using pos(3) by (simp add: l33_def)
  have e21: "l21 * l11 = d" "l11 * l21 = d" using n1 by (simp_all add: l21_def)
  have e31: "l31 * l11 = g" "l11 * l31 = g" using n1 by (simp_all add: l31_def)
  have e32: "l32 * l22 = h - l31 * l21" using n2 by (simp add: l32_def)
  have p22: "l21 * l21 + l22 * l22 = e" using s2 by simp
  have p32: "l31 * l21 + l32 * l22 = h" "l21 * l31 + l22 * l32 = h"
    using e32 by (simp_all add: mult.commute)
  have p33: "l31 * l31 + l32 * l32 + l33 * l33 = i" using s3 by simp
  have prod: "dot l (transpose l) = [[a, d, g], [d, e, h], [g, h, i]]"
    unfolding lv transpose3 dot3
    by (simp add: s1 e21 e31 p22 p32 p33)
  have "is_mat3 l" "lower_triangular l"
    unfolding lv by (simp_all add: is_mat3I lower_triangular3)
  with prod have "is_mat3 l \<and> lower_triangular l \<and> dot l (transpose l) = lower_sym m"
    by (simp add: m lower_sym3)
  then show ?thesis
    by (simp add: cholesky_contract_def exact_linalg_def l)
qed

lemma m0_m1_mat3: "length data = 3 \<Longrightarrow> is_mat3 (m0_of data) \<and> is_mat3 (m1_of data)"
  by (simp add: is_mat3_def m0_of_def m1_of_def list_all_iff)

text \<open>
  Claim C1, as amended.  Let \<open>M0\<close> and \<open>M1\<close> be the two matrices of the table, and let
  \<open>inv\<close> and \<open>cholesky\<close> keep their contracts.  When the run step returns, the emitted
  matrix \<open>a\<close> is \<open>M1\<close> times the inverse of \<open>M0\<close> (so \<open>a\<close> times \<open>M0\<close> is
  \<open>M1\<close>), and the emitted matrix \<open>b\<close> is the transpose of the lower-triangular
  Cholesky factor \<open>L\<close> of the innovation covariance: the transpose of \<open>b\<close> times
  \<open>b\<close> is the matrix that \<open>cholesky\<close> factors, which for a symmetric \<open>M0\<close> is
  \<open>M0\<close> minus \<open>a\<close> times the transpose of \<open>M1\<close>.
\<close>

theorem corr_run_matrices:
  "length data = 3 \<Longrightarrow> (\<forall>m. inv_contract la m) \<Longrightarrow> (\<forall>m. cholesky_contract la m) \<Longrightarrow>
   corr_run la data = Inr (nml, info) \<Longrightarrow>
   (\<exists>a b m0i l.
      nml = [(''a'', a), (''b'', b)] \<and> info = [(''M0'', m0_of data), (''M1'', m1_of data)] \<and>
      linalg_inv la (m0_of data) = Inr m0i \<and>
      dot (m0_of data) m0i = identity3 \<and> dot m0i (m0_of data) = identity3 \<and>
      a = dot (m1_of data) m0i \<and> dot a (m0_of data) = m1_of data \<and>
      lower_triangular l \<and> b = transpose l \<and>
      dot l (transpose l) = lower_sym (mat_sub (m0_of data) (dot a (transpose (m1_of data)))) \<and>
      dot (transpose b) b = lower_sym (mat_sub (m0_of data) (dot a (transpose (m1_of data)))) \<and>
      (symmetric (m0_of data) \<longrightarrow>
         dot (transpose b) b = mat_sub (m0_of data) (dot a (transpose (m1_of data)))))"
proof -
  assume len: "length data = 3" and ic: "\<forall>m. inv_contract la m"
    and cc: "\<forall>m. cholesky_contract la m" and run: "corr_run la data = Inr (nml, info)"
  let ?m0 = "m0_of data" and ?m1 = "m1_of data"
  from m0_m1_mat3 [OF len] have m0: "is_mat3 ?m0" and m1: "is_mat3 ?m1" by simp_all
  from run obtain m0i where i: "linalg_inv la ?m0 = Inr m0i"
    by (auto simp: corr_run_def Let_def split: sum.splits)
  let ?a = "dot ?m1 m0i"
  let ?cov = "mat_sub ?m0 (dot ?a (transpose ?m1))"
  from run i obtain l where c: "linalg_cholesky la ?cov = Inr l"
    by (auto simp: corr_run_def Let_def split: sum.splits)
  from run i c have out: "nml = [(''a'', ?a), (''b'', transpose l)]"
    "info = [(''M0'', ?m0), (''M1'', ?m1)]"
    by (simp_all add: corr_run_def Let_def)
  from ic i have inv: "is_mat3 m0i" "dot ?m0 m0i = identity3" "dot m0i ?m0 = identity3"
    by (auto simp: inv_contract_def split: sum.splits dest: spec [of _ ?m0])
  from cc c have ch: "is_mat3 l" "lower_triangular l" "dot l (transpose l) = lower_sym ?cov"
    by (auto simp: cholesky_contract_def split: sum.splits dest: spec [of _ ?cov])
  have "dot ?a ?m0 = dot ?m1 (dot m0i ?m0)"
    by (rule dot_assoc3 [OF m1 inv(1) m0])
  also have "\<dots> = ?m1"
    by (simp only: inv(3) dot_identity3(1) [OF m1])
  finally have am: "dot ?a ?m0 = ?m1" .
  have bb: "dot (transpose (transpose l)) (transpose l) = lower_sym ?cov"
    by (simp only: transpose_transpose3 [OF ch(1)] ch(3))
  have sym: "dot (transpose (transpose l)) (transpose l) = ?cov" if s: "symmetric ?m0"
  proof -
    have si: "symmetric m0i"
      by (rule inverse_symmetric [OF m0 inv(1) s inv(2) inv(3)])
    have "symmetric ?cov"
      by (rule covariance_symmetric [OF m0 m1 inv(1) s si])
    moreover have "is_mat3 ?cov"
      by (intro is_mat3_ops(1,2) [OF _ _] m0 m1 inv(1) is_mat3_ops(3) [OF m1 m1])
    ultimately have "lower_sym ?cov = ?cov" by (rule lower_sym_symmetric [rotated])
    with bb show ?thesis by simp
  qed
  show ?thesis
    apply (rule exI [of _ ?a], rule exI [of _ "transpose l"], rule exI [of _ m0i],
        rule exI [of _ l])
    using out i inv(2,3) am ch(2,3) bb sym by (intro conjI impI) simp_all
qed

lemma example_m0_m1:
  "m0_of example_corr = [[1, 3/5, 0], [3/5, 1, 0], [0, 0, 1]]"
  "m1_of example_corr = [[3/5, 9/25, 0], [9/25, 3/5, 0], [0, 0, 3/5]]"
  by (simp_all add: m0_of_def m1_of_def example_corr_def)

lemma example_inv:
  "exact_inv [[1, 3/5, 0], [3/5, 1, 0], [0, 0, 1]] =
     Inr [[25/16, - (15/16), 0], [- (15/16), 25/16, 0], [0, 0, 1]]"
  by (simp add: exact_inv_def Let_def)

lemma example_a:
  "dot [[3/5, 9/25, 0], [9/25, 3/5, 0], [0, 0, 3/5]]
       [[25/16, - (15/16), 0], [- (15/16), 25/16, 0], [0, 0, 1]] =
     [[3/5, 0, 0], [0, 3/5, 0], [0, 0, 3/5]]"
  unfolding dot3 by simp

lemma example_cov:
  "mat_sub [[1, 3/5, 0], [3/5, 1, 0], [0, 0, 1]]
     (dot [[3/5, 0, 0], [0, 3/5, 0], [0, 0, 3/5]]
          [[3/5, 9/25, 0], [9/25, 3/5, 0], [0, 0, 3/5]]) =
   [[16/25, 48/125, 0], [48/125, 16/25, 0], [0, 0, 16/25]]"
  unfolding dot3 mat_sub3 by simp

lemma example_sqrt: "sqrt (16/25) = 4/5" "sqrt (256/625) = 16/25"
  by (rule real_sqrt_unique; simp add: power2_eq_square)+

lemma example_cholesky:
  "exact_cholesky [[16/25, 48/125, 0], [48/125, 16/25, 0], [0, 0, 16/25]] =
     Inr [[4/5, 0, 0], [12/25, 16/25, 0], [0, 0, 4/5]]"
proof -
  have a: "(16/25 - 12/25 * (12/25) :: real) = 256/625" by simp
  show ?thesis
    by (simp add: exact_cholesky_def Let_def example_sqrt a)
qed

lemma example_run:
  "corr_run exact_linalg example_corr =
     Inr ([(''a'', [[3/5, 0, 0], [0, 3/5, 0], [0, 0, 3/5]]),
           (''b'', [[4/5, 12/25, 0], [0, 16/25, 0], [0, 0, 4/5]])],
          [(''M0'', [[1, 3/5, 0], [3/5, 1, 0], [0, 0, 1]]),
           (''M1'', [[3/5, 9/25, 0], [9/25, 3/5, 0], [0, 0, 3/5]])])"
  unfolding corr_run_def Let_def example_m0_m1 exact_linalg_def linalg.simps
    example_inv sum.case example_a transpose3 example_cov example_cholesky
  by (rule refl)

theorem corr_run_matrices_witness:
  "length example_corr = 3 \<and> symmetric (m0_of example_corr) \<and>
   corr_run exact_linalg example_corr =
     Inr ([(''a'', [[3/5, 0, 0], [0, 3/5, 0], [0, 0, 3/5]]),
           (''b'', [[4/5, 12/25, 0], [0, 16/25, 0], [0, 0, 4/5]])],
          [(''M0'', [[1, 3/5, 0], [3/5, 1, 0], [0, 0, 1]]),
           (''M1'', [[3/5, 9/25, 0], [9/25, 3/5, 0], [0, 0, 3/5]])]) \<and>
   dot [[3/5, 0, 0], [0, 3/5, 0], [0, 0, 3/5]] (m0_of example_corr) = m1_of example_corr \<and>
   dot (transpose [[4/5, 12/25, 0], [0, 16/25, 0], [0, 0, 4/5]])
       [[4/5, 12/25, 0], [0, 16/25, 0], [0, 0, 4/5]] =
     mat_sub (m0_of example_corr)
       (dot [[3/5, 0, 0], [0, 3/5, 0], [0, 0, 3/5]] (transpose (m1_of example_corr)))"
proof -
  have len: "length example_corr = 3"
    by (simp add: example_corr_def)
  have sym: "symmetric (m0_of example_corr)"
    unfolding example_m0_m1 symmetric_def transpose3 by simp
  have ic: "\<forall>m. inv_contract exact_linalg m"
    by (simp add: exact_inv_contract)
  have cc: "\<forall>m. cholesky_contract exact_linalg m"
    by (simp add: exact_cholesky_contract)
  from corr_run_matrices [OF len ic cc example_run] obtain a b where
    n: "[(''a'', [[3/5, 0, 0], [0, 3/5, 0], [0, 0, 3/5 :: real]]),
         (''b'', [[4/5, 12/25, 0], [0, 16/25, 0], [0, 0, 4/5]])] = [(''a'', a), (''b'', b)]"
    and am: "dot a (m0_of example_corr) = m1_of example_corr"
    and bb: "symmetric (m0_of example_corr) \<longrightarrow>
      dot (transpose b) b =
        mat_sub (m0_of example_corr) (dot a (transpose (m1_of example_corr)))"
    by blast
  from n have a: "a = [[3/5, 0, 0], [0, 3/5, 0], [0, 0, 3/5]]"
    and b: "b = [[4/5, 12/25, 0], [0, 16/25, 0], [0, 0, 4/5]]"
    by simp_all
  from len sym example_run am bb show ?thesis
    unfolding a b by (intro conjI) simp_all
qed

text \<open>
  For the example table the product of the emitted \<open>b\<close> with its transpose, in this
  order, is not the innovation covariance.
\<close>

theorem corr_run_b_counterexample:
  "corr_run exact_linalg example_corr =
     Inr ([(''a'', [[3/5, 0, 0], [0, 3/5, 0], [0, 0, 3/5]]),
           (''b'', [[4/5, 12/25, 0], [0, 16/25, 0], [0, 0, 4/5]])],
          [(''M0'', [[1, 3/5, 0], [3/5, 1, 0], [0, 0, 1]]),
           (''M1'', [[3/5, 9/25, 0], [9/25, 3/5, 0], [0, 0, 3/5]])]) \<and>
   dot [[4/5, 12/25, 0], [0, 16/25, 0], [0, 0, 4/5]]
       (transpose [[4/5, 12/25, 0], [0, 16/25, 0], [0, 0, 4/5]]) =
     [[544/625, 192/625, 0], [192/625, 256/625, 0], [0, 0, 16/25]] \<and>
   mat_sub [[1, 3/5, 0], [3/5, 1, 0], [0, 0, 1]]
     (dot [[3/5, 0, 0], [0, 3/5, 0], [0, 0, 3/5]]
          (transpose [[3/5, 9/25, 0], [9/25, 3/5, 0], [0, 0, 3/5]])) =
     [[16/25, 48/125, 0], [48/125, 16/25, 0], [0, 0, 16/25]] \<and>
   dot [[4/5, 12/25, 0], [0, 16/25, 0], [0, 0, 4/5]]
       (transpose [[4/5, 12/25, 0], [0, 16/25, 0], [0, 0, 4/5]]) \<noteq>
     mat_sub [[1, 3/5, 0], [3/5, 1, 0], [0, 0, 1]]
       (dot [[3/5, 0, 0], [0, 3/5, 0], [0, 0, 3/5]]
            (transpose [[3/5, 9/25, 0], [9/25, 3/5, 0], [0, 0, 3/5]]))"
proof -
  have bbt: "dot [[4/5, 12/25, 0], [0, 16/25, 0], [0, 0, 4/5]]
       (transpose [[4/5, 12/25, 0], [0, 16/25, 0], [0, 0, 4/5]]) =
     [[544/625, 192/625, 0], [192/625, 256/625, 0], [0, 0, 16/25]]"
    unfolding transpose3 dot3 by simp
  have cov: "mat_sub [[1, 3/5, 0], [3/5, 1, 0], [0, 0, 1]]
     (dot [[3/5, 0, 0], [0, 3/5, 0], [0, 0, 3/5]]
          (transpose [[3/5, 9/25, 0], [9/25, 3/5, 0], [0, 0, 3/5]])) =
     [[16/25, 48/125, 0], [48/125, 16/25, 0], [0, 0, 16/25]]"
    unfolding transpose3 example_cov ..
  have ne: "[[544/625, 192/625, 0], [192/625, 256/625, 0], [0, 0, 16/25]] \<noteq>
      [[16/25, 48/125, 0], [48/125, 16/25, 0], [0, 0, 16/25 :: real]]"
    by simp
  have neq: "dot [[4/5, 12/25, 0], [0, 16/25, 0], [0, 0, 4/5]]
       (transpose [[4/5, 12/25, 0], [0, 16/25, 0], [0, 0, 4/5]]) \<noteq>
     mat_sub [[1, 3/5, 0], [3/5, 1, 0], [0, 0, 1]]
       (dot [[3/5, 0, 0], [0, 3/5, 0], [0, 0, 3/5]]
            (transpose [[3/5, 9/25, 0], [9/25, 3/5, 0], [0, 0, 3/5]]))"
    unfolding bbt cov by (rule ne)
  from example_run bbt cov neq show ?thesis
    by (intro conjI)
qed

end
